theory Spec2Isabelle
  imports Complex_Main "HOL-Library.Log_Nat" "HOL-Library.Sublist" "HOL-Library.Word"
begin

section \<open>Strings\<close>

text \<open>
  A Python \<^verbatim>\<open>str\<close> is a sequence of Unicode code points; a code point is a natural
  number. \<open>ustr\<close> turns an ASCII literal into such a sequence.
\<close>

type_synonym ustring = "nat list"

definition ustr :: "string \<Rightarrow> ustring" where
  "ustr s = map of_char s"

subsection \<open>Lower case\<close>

text \<open>
  \<^verbatim>\<open>str.lower()\<close> is a builtin of Python; what follows is CPython's algorithm on the
  Unicode 14.0.0 data of Python 3.11. An ASCII code point has its ASCII lower case. U+0130
  becomes the two code points U+0069 U+0307. Every other code point becomes one code point,
  given by \<open>lower_table\<close>: an entry \<open>(lo, hi, step, t)\<close> maps \<open>lo\<close>, \<open>lo + step\<close>, ... up to
  \<open>hi\<close> to \<open>t\<close>, \<open>t + step\<close>, ...; a code point in no entry is left as it is. The Greek capital
  sigma U+03A3 alone depends on its neighbours, see \<open>final_sigma\<close>.
\<close>

definition tolower_ascii :: "nat \<Rightarrow> nat" where
  "tolower_ascii c = (if 65 \<le> c \<and> c \<le> 90 then c + 32 else c)"

definition lower_table :: "(nat \<times> nat \<times> nat \<times> nat) list" where
  "lower_table =
    [(192, 214, 1, 224), (216, 222, 1, 248), (256, 302, 2, 257), (306, 310, 2, 307),
     (313, 327, 2, 314), (330, 374, 2, 331), (376, 376, 1, 255), (377, 381, 2, 378),
     (385, 385, 1, 595), (386, 388, 2, 387), (390, 390, 1, 596), (391, 391, 1, 392),
     (393, 394, 1, 598), (395, 395, 1, 396), (398, 398, 1, 477), (399, 399, 1, 601),
     (400, 400, 1, 603), (401, 401, 1, 402), (403, 403, 1, 608), (404, 404, 1, 611),
     (406, 406, 1, 617), (407, 407, 1, 616), (408, 408, 1, 409), (412, 412, 1, 623),
     (413, 413, 1, 626), (415, 415, 1, 629), (416, 420, 2, 417), (422, 422, 1, 640),
     (423, 423, 1, 424), (425, 425, 1, 643), (428, 428, 1, 429), (430, 430, 1, 648),
     (431, 431, 1, 432), (433, 434, 1, 650), (435, 437, 2, 436), (439, 439, 1, 658),
     (440, 440, 1, 441), (444, 444, 1, 445), (452, 452, 1, 454), (453, 453, 1, 454),
     (455, 455, 1, 457), (456, 456, 1, 457), (458, 458, 1, 460), (459, 475, 2, 460),
     (478, 494, 2, 479), (497, 497, 1, 499), (498, 500, 2, 499), (502, 502, 1, 405),
     (503, 503, 1, 447), (504, 542, 2, 505), (544, 544, 1, 414), (546, 562, 2, 547),
     (570, 570, 1, 11365), (571, 571, 1, 572), (573, 573, 1, 410), (574, 574, 1, 11366),
     (577, 577, 1, 578), (579, 579, 1, 384), (580, 580, 1, 649), (581, 581, 1, 652),
     (582, 590, 2, 583), (880, 882, 2, 881), (886, 886, 1, 887), (895, 895, 1, 1011),
     (902, 902, 1, 940), (904, 906, 1, 941), (908, 908, 1, 972), (910, 911, 1, 973),
     (913, 929, 1, 945), (931, 939, 1, 963), (975, 975, 1, 983), (984, 1006, 2, 985),
     (1012, 1012, 1, 952), (1015, 1015, 1, 1016), (1017, 1017, 1, 1010), (1018, 1018, 1, 1019),
     (1021, 1023, 1, 891), (1024, 1039, 1, 1104), (1040, 1071, 1, 1072), (1120, 1152, 2, 1121),
     (1162, 1214, 2, 1163), (1216, 1216, 1, 1231), (1217, 1229, 2, 1218),
     (1232, 1326, 2, 1233), (1329, 1366, 1, 1377), (4256, 4293, 1, 11520),
     (4295, 4295, 1, 11559), (4301, 4301, 1, 11565), (5024, 5103, 1, 43888),
     (5104, 5109, 1, 5112), (7312, 7354, 1, 4304), (7357, 7359, 1, 4349),
     (7680, 7828, 2, 7681), (7838, 7838, 1, 223), (7840, 7934, 2, 7841), (7944, 7951, 1, 7936),
     (7960, 7965, 1, 7952), (7976, 7983, 1, 7968), (7992, 7999, 1, 7984),
     (8008, 8013, 1, 8000), (8025, 8031, 2, 8017), (8040, 8047, 1, 8032),
     (8072, 8079, 1, 8064), (8088, 8095, 1, 8080), (8104, 8111, 1, 8096),
     (8120, 8121, 1, 8112), (8122, 8123, 1, 8048), (8124, 8124, 1, 8115),
     (8136, 8139, 1, 8050), (8140, 8140, 1, 8131), (8152, 8153, 1, 8144),
     (8154, 8155, 1, 8054), (8168, 8169, 1, 8160), (8170, 8171, 1, 8058),
     (8172, 8172, 1, 8165), (8184, 8185, 1, 8056), (8186, 8187, 1, 8060),
     (8188, 8188, 1, 8179), (8486, 8486, 1, 969), (8490, 8490, 1, 107), (8491, 8491, 1, 229),
     (8498, 8498, 1, 8526), (8544, 8559, 1, 8560), (8579, 8579, 1, 8580),
     (9398, 9423, 1, 9424), (11264, 11311, 1, 11312), (11360, 11360, 1, 11361),
     (11362, 11362, 1, 619), (11363, 11363, 1, 7549), (11364, 11364, 1, 637),
     (11367, 11371, 2, 11368), (11373, 11373, 1, 593), (11374, 11374, 1, 625),
     (11375, 11375, 1, 592), (11376, 11376, 1, 594), (11378, 11378, 1, 11379),
     (11381, 11381, 1, 11382), (11390, 11391, 1, 575), (11392, 11490, 2, 11393),
     (11499, 11501, 2, 11500), (11506, 11506, 1, 11507), (42560, 42604, 2, 42561),
     (42624, 42650, 2, 42625), (42786, 42798, 2, 42787), (42802, 42862, 2, 42803),
     (42873, 42875, 2, 42874), (42877, 42877, 1, 7545), (42878, 42886, 2, 42879),
     (42891, 42891, 1, 42892), (42893, 42893, 1, 613), (42896, 42898, 2, 42897),
     (42902, 42920, 2, 42903), (42922, 42922, 1, 614), (42923, 42923, 1, 604),
     (42924, 42924, 1, 609), (42925, 42925, 1, 620), (42926, 42926, 1, 618),
     (42928, 42928, 1, 670), (42929, 42929, 1, 647), (42930, 42930, 1, 669),
     (42931, 42931, 1, 43859), (42932, 42946, 2, 42933), (42948, 42948, 1, 42900),
     (42949, 42949, 1, 642), (42950, 42950, 1, 7566), (42951, 42953, 2, 42952),
     (42960, 42960, 1, 42961), (42966, 42968, 2, 42967), (42997, 42997, 1, 42998),
     (65313, 65338, 1, 65345), (66560, 66599, 1, 66600), (66736, 66771, 1, 66776),
     (66928, 66938, 1, 66967), (66940, 66954, 1, 66979), (66956, 66962, 1, 66995),
     (66964, 66965, 1, 67003), (68736, 68786, 1, 68800), (71840, 71871, 1, 71872),
     (93760, 93791, 1, 93792), (125184, 125217, 1, 125218)]"

definition lower_simple :: "nat \<Rightarrow> nat" where
  "lower_simple c =
     (case find (\<lambda>(lo, hi, step, t). lo \<le> c \<and> c \<le> hi \<and> (c - lo) mod step = 0) lower_table of
        Some (lo, hi, step, t) \<Rightarrow> t + (c - lo)
      | None \<Rightarrow> c)"

definition lower_cp :: "nat \<Rightarrow> ustring" where
  "lower_cp c =
     (if c < 128 then [tolower_ascii c]
      else if c = 304 then [105, 775]
      else [lower_simple c])"

text \<open>
  The code points with the Unicode property Cased, and those with the property
  Case_Ignorable, as inclusive ranges.
\<close>

definition cased_table :: "(nat \<times> nat) list" where
  "cased_table =
    [(65, 90), (97, 122), (170, 170), (181, 181), (186, 186), (192, 214), (216, 246),
     (248, 442), (444, 447), (452, 659), (661, 696), (704, 705), (736, 740), (837, 837),
     (880, 883), (886, 887), (890, 893), (895, 895), (902, 902), (904, 906), (908, 908),
     (910, 929), (931, 1013), (1015, 1153), (1162, 1327), (1329, 1366), (1376, 1416),
     (4256, 4293), (4295, 4295), (4301, 4301), (4304, 4346), (4349, 4351), (5024, 5109),
     (5112, 5117), (7296, 7304), (7312, 7354), (7357, 7359), (7424, 7615), (7680, 7957),
     (7960, 7965), (7968, 8005), (8008, 8013), (8016, 8023), (8025, 8025), (8027, 8027),
     (8029, 8029), (8031, 8061), (8064, 8116), (8118, 8124), (8126, 8126), (8130, 8132),
     (8134, 8140), (8144, 8147), (8150, 8155), (8160, 8172), (8178, 8180), (8182, 8188),
     (8305, 8305), (8319, 8319), (8336, 8348), (8450, 8450), (8455, 8455), (8458, 8467),
     (8469, 8469), (8473, 8477), (8484, 8484), (8486, 8486), (8488, 8488), (8490, 8493),
     (8495, 8500), (8505, 8505), (8508, 8511), (8517, 8521), (8526, 8526), (8544, 8575),
     (8579, 8580), (9398, 9449), (11264, 11492), (11499, 11502), (11506, 11507),
     (11520, 11557), (11559, 11559), (11565, 11565), (42560, 42605), (42624, 42653),
     (42786, 42887), (42891, 42894), (42896, 42954), (42960, 42961), (42963, 42963),
     (42965, 42969), (42997, 42998), (43000, 43002), (43824, 43866), (43868, 43880),
     (43888, 43967), (64256, 64262), (64275, 64279), (65313, 65338), (65345, 65370),
     (66560, 66639), (66736, 66771), (66776, 66811), (66928, 66938), (66940, 66954),
     (66956, 66962), (66964, 66965), (66967, 66977), (66979, 66993), (66995, 67001),
     (67003, 67004), (67456, 67456), (67459, 67461), (67463, 67504), (67506, 67514),
     (68736, 68786), (68800, 68850), (71840, 71903), (93760, 93823), (119808, 119892),
     (119894, 119964), (119966, 119967), (119970, 119970), (119973, 119974), (119977, 119980),
     (119982, 119993), (119995, 119995), (119997, 120003), (120005, 120069), (120071, 120074),
     (120077, 120084), (120086, 120092), (120094, 120121), (120123, 120126), (120128, 120132),
     (120134, 120134), (120138, 120144), (120146, 120485), (120488, 120512), (120514, 120538),
     (120540, 120570), (120572, 120596), (120598, 120628), (120630, 120654), (120656, 120686),
     (120688, 120712), (120714, 120744), (120746, 120770), (120772, 120779), (122624, 122633),
     (122635, 122654), (125184, 125251), (127280, 127305), (127312, 127337), (127344, 127369)]"

definition case_ignorable_table :: "(nat \<times> nat) list" where
  "case_ignorable_table =
    [(39, 39), (46, 46), (58, 58), (94, 94), (96, 96), (168, 168), (173, 173), (175, 175),
     (180, 180), (183, 184), (688, 879), (884, 885), (890, 890), (900, 901), (903, 903),
     (1155, 1161), (1369, 1369), (1375, 1375), (1425, 1469), (1471, 1471), (1473, 1474),
     (1476, 1477), (1479, 1479), (1524, 1524), (1536, 1541), (1552, 1562), (1564, 1564),
     (1600, 1600), (1611, 1631), (1648, 1648), (1750, 1757), (1759, 1768), (1770, 1773),
     (1807, 1807), (1809, 1809), (1840, 1866), (1958, 1968), (2027, 2037), (2042, 2042),
     (2045, 2045), (2070, 2093), (2137, 2139), (2184, 2184), (2192, 2193), (2200, 2207),
     (2249, 2306), (2362, 2362), (2364, 2364), (2369, 2376), (2381, 2381), (2385, 2391),
     (2402, 2403), (2417, 2417), (2433, 2433), (2492, 2492), (2497, 2500), (2509, 2509),
     (2530, 2531), (2558, 2558), (2561, 2562), (2620, 2620), (2625, 2626), (2631, 2632),
     (2635, 2637), (2641, 2641), (2672, 2673), (2677, 2677), (2689, 2690), (2748, 2748),
     (2753, 2757), (2759, 2760), (2765, 2765), (2786, 2787), (2810, 2815), (2817, 2817),
     (2876, 2876), (2879, 2879), (2881, 2884), (2893, 2893), (2901, 2902), (2914, 2915),
     (2946, 2946), (3008, 3008), (3021, 3021), (3072, 3072), (3076, 3076), (3132, 3132),
     (3134, 3136), (3142, 3144), (3146, 3149), (3157, 3158), (3170, 3171), (3201, 3201),
     (3260, 3260), (3263, 3263), (3270, 3270), (3276, 3277), (3298, 3299), (3328, 3329),
     (3387, 3388), (3393, 3396), (3405, 3405), (3426, 3427), (3457, 3457), (3530, 3530),
     (3538, 3540), (3542, 3542), (3633, 3633), (3636, 3642), (3654, 3662), (3761, 3761),
     (3764, 3772), (3782, 3782), (3784, 3789), (3864, 3865), (3893, 3893), (3895, 3895),
     (3897, 3897), (3953, 3966), (3968, 3972), (3974, 3975), (3981, 3991), (3993, 4028),
     (4038, 4038), (4141, 4144), (4146, 4151), (4153, 4154), (4157, 4158), (4184, 4185),
     (4190, 4192), (4209, 4212), (4226, 4226), (4229, 4230), (4237, 4237), (4253, 4253),
     (4348, 4348), (4957, 4959), (5906, 5908), (5938, 5939), (5970, 5971), (6002, 6003),
     (6068, 6069), (6071, 6077), (6086, 6086), (6089, 6099), (6103, 6103), (6109, 6109),
     (6155, 6159), (6211, 6211), (6277, 6278), (6313, 6313), (6432, 6434), (6439, 6440),
     (6450, 6450), (6457, 6459), (6679, 6680), (6683, 6683), (6742, 6742), (6744, 6750),
     (6752, 6752), (6754, 6754), (6757, 6764), (6771, 6780), (6783, 6783), (6823, 6823),
     (6832, 6862), (6912, 6915), (6964, 6964), (6966, 6970), (6972, 6972), (6978, 6978),
     (7019, 7027), (7040, 7041), (7074, 7077), (7080, 7081), (7083, 7085), (7142, 7142),
     (7144, 7145), (7149, 7149), (7151, 7153), (7212, 7219), (7222, 7223), (7288, 7293),
     (7376, 7378), (7380, 7392), (7394, 7400), (7405, 7405), (7412, 7412), (7416, 7417),
     (7468, 7530), (7544, 7544), (7579, 7679), (8125, 8125), (8127, 8129), (8141, 8143),
     (8157, 8159), (8173, 8175), (8189, 8190), (8203, 8207), (8216, 8217), (8228, 8228),
     (8231, 8231), (8234, 8238), (8288, 8292), (8294, 8303), (8305, 8305), (8319, 8319),
     (8336, 8348), (8400, 8432), (11388, 11389), (11503, 11505), (11631, 11631),
     (11647, 11647), (11744, 11775), (11823, 11823), (12293, 12293), (12330, 12333),
     (12337, 12341), (12347, 12347), (12441, 12446), (12540, 12542), (40981, 40981),
     (42232, 42237), (42508, 42508), (42607, 42610), (42612, 42621), (42623, 42623),
     (42652, 42655), (42736, 42737), (42752, 42785), (42864, 42864), (42888, 42890),
     (42994, 42996), (43000, 43001), (43010, 43010), (43014, 43014), (43019, 43019),
     (43045, 43046), (43052, 43052), (43204, 43205), (43232, 43249), (43263, 43263),
     (43302, 43309), (43335, 43345), (43392, 43394), (43443, 43443), (43446, 43449),
     (43452, 43453), (43471, 43471), (43493, 43494), (43561, 43566), (43569, 43570),
     (43573, 43574), (43587, 43587), (43596, 43596), (43632, 43632), (43644, 43644),
     (43696, 43696), (43698, 43700), (43703, 43704), (43710, 43711), (43713, 43713),
     (43741, 43741), (43756, 43757), (43763, 43764), (43766, 43766), (43867, 43871),
     (43881, 43883), (44005, 44005), (44008, 44008), (44013, 44013), (64286, 64286),
     (64434, 64450), (65024, 65039), (65043, 65043), (65056, 65071), (65106, 65106),
     (65109, 65109), (65279, 65279), (65287, 65287), (65294, 65294), (65306, 65306),
     (65342, 65342), (65344, 65344), (65392, 65392), (65438, 65439), (65507, 65507),
     (65529, 65531), (66045, 66045), (66272, 66272), (66422, 66426), (67456, 67461),
     (67463, 67504), (67506, 67514), (68097, 68099), (68101, 68102), (68108, 68111),
     (68152, 68154), (68159, 68159), (68325, 68326), (68900, 68903), (69291, 69292),
     (69446, 69456), (69506, 69509), (69633, 69633), (69688, 69702), (69744, 69744),
     (69747, 69748), (69759, 69761), (69811, 69814), (69817, 69818), (69821, 69821),
     (69826, 69826), (69837, 69837), (69888, 69890), (69927, 69931), (69933, 69940),
     (70003, 70003), (70016, 70017), (70070, 70078), (70089, 70092), (70095, 70095),
     (70191, 70193), (70196, 70196), (70198, 70199), (70206, 70206), (70367, 70367),
     (70371, 70378), (70400, 70401), (70459, 70460), (70464, 70464), (70502, 70508),
     (70512, 70516), (70712, 70719), (70722, 70724), (70726, 70726), (70750, 70750),
     (70835, 70840), (70842, 70842), (70847, 70848), (70850, 70851), (71090, 71093),
     (71100, 71101), (71103, 71104), (71132, 71133), (71219, 71226), (71229, 71229),
     (71231, 71232), (71339, 71339), (71341, 71341), (71344, 71349), (71351, 71351),
     (71453, 71455), (71458, 71461), (71463, 71467), (71727, 71735), (71737, 71738),
     (71995, 71996), (71998, 71998), (72003, 72003), (72148, 72151), (72154, 72155),
     (72160, 72160), (72193, 72202), (72243, 72248), (72251, 72254), (72263, 72263),
     (72273, 72278), (72281, 72283), (72330, 72342), (72344, 72345), (72752, 72758),
     (72760, 72765), (72767, 72767), (72850, 72871), (72874, 72880), (72882, 72883),
     (72885, 72886), (73009, 73014), (73018, 73018), (73020, 73021), (73023, 73029),
     (73031, 73031), (73104, 73105), (73109, 73109), (73111, 73111), (73459, 73460),
     (78896, 78904), (92912, 92916), (92976, 92982), (92992, 92995), (94031, 94031),
     (94095, 94111), (94176, 94177), (94179, 94180), (110576, 110579), (110581, 110587),
     (110589, 110590), (113821, 113822), (113824, 113827), (118528, 118573), (118576, 118598),
     (119143, 119145), (119155, 119170), (119173, 119179), (119210, 119213), (119362, 119364),
     (121344, 121398), (121403, 121452), (121461, 121461), (121476, 121476), (121499, 121503),
     (121505, 121519), (122880, 122886), (122888, 122904), (122907, 122913), (122915, 122916),
     (122918, 122922), (123184, 123197), (123566, 123566), (123628, 123631), (125136, 125142),
     (125252, 125259), (127995, 127999), (917505, 917505), (917536, 917631), (917760, 917999)]"

definition in_table :: "nat \<Rightarrow> (nat \<times> nat) list \<Rightarrow> bool" where
  "in_table c t = list_ex (\<lambda>(lo, hi). lo \<le> c \<and> c \<le> hi) t"

definition cased :: "nat \<Rightarrow> bool" where
  "cased c = in_table c cased_table"

definition case_ignorable :: "nat \<Rightarrow> bool" where
  "case_ignorable c = in_table c case_ignorable_table"

text \<open>
  CPython's \<^verbatim>\<open>handle_capital_sigma\<close>: a capital sigma becomes the final small sigma
  U+03C2 when, skipping case-ignorable code points, a cased code point comes before it
  and none comes after it; otherwise it becomes U+03C3. \<open>before\<close> is the text before the
  sigma, nearest code point first.
\<close>

definition final_sigma :: "ustring \<Rightarrow> ustring \<Rightarrow> bool" where
  "final_sigma before after =
     ((case dropWhile case_ignorable before of [] \<Rightarrow> False | c # r \<Rightarrow> cased c)
      \<and> (case dropWhile case_ignorable after of [] \<Rightarrow> True | c # r \<Rightarrow> \<not> cased c))"

fun lower_from :: "ustring \<Rightarrow> ustring \<Rightarrow> ustring" where
  "lower_from before [] = []"
| "lower_from before (c # cs) =
     (if c = 931 then [if final_sigma before cs then 962 else 963] else lower_cp c)
     @ lower_from (c # before) cs"

definition lower :: "ustring \<Rightarrow> ustring" where
  "lower s = lower_from [] s"

subsection \<open>Substrings\<close>

text \<open>Python's \<^verbatim>\<open>needle in haystack\<close> on strings: a scan over the start positions.\<close>

fun starts_with :: "'a list \<Rightarrow> 'a list \<Rightarrow> bool" where
  "starts_with [] s = True"
| "starts_with (p # ps) [] = False"
| "starts_with (p # ps) (c # cs) = (p = c \<and> starts_with ps cs)"

fun str_in :: "'a list \<Rightarrow> 'a list \<Rightarrow> bool" where
  "str_in needle [] = (needle = [])"
| "str_in needle (c # cs) = (starts_with needle (c # cs) \<or> str_in needle cs)"

section \<open>Processor speed resolver\<close>

text \<open>
  \<^verbatim>\<open>get_processor_speed\<close> exists twice, in \<^verbatim>\<open>prediction_pipeline.py\<close> and in
  \<^verbatim>\<open>training_pipeline.py\<close>, each with its own dictionary literal. A dictionary literal
  iterates in insertion order, so each table is an association list in the order of the
  literal. Both are transcribed separately from their file.
\<close>

definition prediction_processor_speeds :: "(ustring \<times> real) list" where
  "prediction_processor_speeds =
   [(ustr ''A17 Pro'', 3.78),
    (ustr ''A17 Bionic'', 3.78),
    (ustr ''A16 Bionic'', 3.46),
    (ustr ''A15 Bionic'', 3.23),
    (ustr ''A14 Bionic'', 3.1),
    (ustr ''A13 Bionic'', 2.65),
    (ustr ''A12 Bionic'', 2.5),
    (ustr ''A11 Bionic'', 2.4),
    (ustr ''Snapdragon 8 Gen 3'', 3.3),
    (ustr ''Snapdragon 8 Gen 2'', 3.2),
    (ustr ''Snapdragon 8+ Gen 1'', 3.2),
    (ustr ''Snapdragon 8 Gen 1'', 3.0),
    (ustr ''Snapdragon 7+ Gen 2'', 2.91),
    (ustr ''Snapdragon 7 Gen 1'', 2.4),
    (ustr ''MediaTek Dimensity 9300'', 3.25),
    (ustr ''MediaTek Dimensity 9200'', 3.05),
    (ustr ''MediaTek Dimensity 9000'', 3.05),
    (ustr ''MediaTek Dimensity 8300'', 3.35),
    (ustr ''MediaTek Dimensity 8200'', 3.1),
    (ustr ''Exynos 2400'', 3.2),
    (ustr ''Exynos 2200'', 2.8),
    (ustr ''Exynos 1380'', 2.4),
    (ustr ''Google Tensor G3'', 2.91),
    (ustr ''Google Tensor G2'', 2.85),
    (ustr ''Google Tensor'', 2.8)]"

definition training_processor_speeds :: "(ustring \<times> real) list" where
  "training_processor_speeds =
   [(ustr ''A17 Pro'', 3.78),
    (ustr ''A17 Bionic'', 3.78),
    (ustr ''A16 Bionic'', 3.46),
    (ustr ''A15 Bionic'', 3.23),
    (ustr ''A14 Bionic'', 3.1),
    (ustr ''A13 Bionic'', 2.65),
    (ustr ''A12 Bionic'', 2.5),
    (ustr ''A11 Bionic'', 2.4),
    (ustr ''Snapdragon 8 Gen 3'', 3.3),
    (ustr ''Snapdragon 8 Gen 2'', 3.2),
    (ustr ''Snapdragon 8+ Gen 1'', 3.2),
    (ustr ''Snapdragon 8 Gen 1'', 3.0),
    (ustr ''Snapdragon 7+ Gen 2'', 2.91),
    (ustr ''Snapdragon 7 Gen 1'', 2.4),
    (ustr ''MediaTek Dimensity 9300'', 3.25),
    (ustr ''MediaTek Dimensity 9200'', 3.05),
    (ustr ''MediaTek Dimensity 9000'', 3.05),
    (ustr ''MediaTek Dimensity 8300'', 3.35),
    (ustr ''MediaTek Dimensity 8200'', 3.1),
    (ustr ''Exynos 2400'', 3.2),
    (ustr ''Exynos 2200'', 2.8),
    (ustr ''Exynos 1380'', 2.4),
    (ustr ''Google Tensor G3'', 2.91),
    (ustr ''Google Tensor G2'', 2.85),
    (ustr ''Google Tensor'', 2.8)]"

text \<open>
  The loop \<^verbatim>\<open>for key, value in processor_speeds.items(): if key.lower() in
  processor_name.lower(): return value\<close>, followed by \<^verbatim>\<open>return 2.0\<close>.
\<close>

fun speed_loop :: "(ustring \<times> real) list \<Rightarrow> ustring \<Rightarrow> real" where
  "speed_loop [] processor_name = 2.0"
| "speed_loop ((key, val) # items) processor_name =
     (if str_in (lower key) (lower processor_name) then val
      else speed_loop items processor_name)"

definition prediction_get_processor_speed :: "ustring \<Rightarrow> real" where
  "prediction_get_processor_speed processor_name =
     speed_loop prediction_processor_speeds processor_name"

definition training_get_processor_speed :: "ustring \<Rightarrow> real" where
  "training_get_processor_speed processor_name =
     speed_loop training_processor_speeds processor_name"

section \<open>Case-insensitive substring, without lower-casing\<close>

text \<open>
  The spec's words for the resolver's test are that the entry's name appears as a
  case-insensitive substring of the input. This is that notion written on the code points
  themselves, to compare the resolver with: a code point \<open>k\<close> of the key and a code point
  \<open>c\<close> of the input are the same letter when they are equal, when they are an ASCII
  letter in its two cases, or when \<open>c\<close> is the Kelvin sign U+212A and \<open>k\<close> is the letter K in
  either case; the key is in the input when it is, letter by letter, a contiguous part of
  it.
\<close>

definition spec_same_letter :: "nat \<Rightarrow> nat \<Rightarrow> bool" where
  "spec_same_letter k c =
     (k = c \<or> (65 \<le> k \<and> k \<le> 90 \<and> c = k + 32) \<or> (65 \<le> c \<and> c \<le> 90 \<and> k = c + 32)
      \<or> (c = 8490 \<and> (k = 75 \<or> k = 107)))"

fun spec_caseless_prefix :: "ustring \<Rightarrow> ustring \<Rightarrow> bool" where
  "spec_caseless_prefix [] s = True"
| "spec_caseless_prefix (k # ks) [] = False"
| "spec_caseless_prefix (k # ks) (c # cs) = (spec_same_letter k c \<and> spec_caseless_prefix ks cs)"

fun spec_caseless_in :: "ustring \<Rightarrow> ustring \<Rightarrow> bool" where
  "spec_caseless_in key [] = (key = [])"
| "spec_caseless_in key (c # cs) = (spec_caseless_prefix key (c # cs) \<or> spec_caseless_in key cs)"


section \<open>Numbers and their text\<close>

text \<open>
  A Python or numpy float: a finite value, an infinity, or NaN. NaN is pandas' marker
  for a value that is not available.
\<close>

datatype pyfloat = Finite real | PosInf | NegInf | NaN


definition is_digit :: "nat \<Rightarrow> bool" where
  "is_digit c = (48 \<le> c \<and> c \<le> 57)"

definition is_space_ascii :: "nat \<Rightarrow> bool" where
  "is_space_ascii c = (c = 32 \<or> (9 \<le> c \<and> c \<le> 13))"

text \<open>
  \<^verbatim>\<open>str.isspace\<close> for one code point, which is also what \<^verbatim>\<open>\s\<close> matches in a
  \<^verbatim>\<open>str\<close> pattern.
\<close>

definition is_space_unicode :: "nat \<Rightarrow> bool" where
  "is_space_unicode c =
     ((9 \<le> c \<and> c \<le> 13) \<or> (28 \<le> c \<and> c \<le> 32) \<or> c = 133 \<or> c = 160 \<or> c = 5760
      \<or> (8192 \<le> c \<and> c \<le> 8202) \<or> c = 8232 \<or> c = 8233 \<or> c = 8239 \<or> c = 8287
      \<or> c = 12288)"

fun str_nat :: "nat \<Rightarrow> ustring" where
  "str_nat n = (if n < 10 then [48 + n] else str_nat (n div 10) @ [48 + n mod 10])"

declare str_nat.simps [simp del]

definition str_int :: "int \<Rightarrow> ustring" where
  "str_int i = (if i < 0 then 45 # str_nat (nat (- i)) else str_nat (nat i))"

text \<open>
  Python's \<^verbatim>\<open>str.replace(old, new)\<close>: non-overlapping occurrences, leftmost first. With
  an empty \<open>old\<close> Python puts \<open>new\<close> before every code point and at the end.
\<close>

function str_replace :: "'a list \<Rightarrow> 'a list \<Rightarrow> 'a list \<Rightarrow> 'a list" where
  "str_replace old new s =
     (if old = [] then new @ concat (map (\<lambda>c. c # new) s)
      else if s = [] then []
      else if starts_with old s then new @ str_replace old new (drop (length old) s)
      else hd s # str_replace old new (tl s))"
  by pat_completeness auto
termination
  by (relation "measure (\<lambda>(old, new, s). length s)") auto

declare str_replace.simps [simp del]

subsection \<open>64-bit floats\<close>

text \<open>
  The C \<^verbatim>\<open>double\<close> of pandas' tokenizer is an IEEE 754 binary64 number, and each of its
  operations returns the exact result rounded to the nearest such number, ties to the even
  significand. A finite float is modelled by the real number it is; \<open>rnd x\<close> is the nearest
  binary64 number to \<open>x\<close> when the exponent is not bounded above (53 significant bits,
  and steps of \<open>2 powi (- 1074)\<close> below \<open>2 powi (- 1022)\<close>). A result of size
  \<open>2 ^ 1024\<close> or more is an overflow. \<open>floor_log2 a\<close> is the binary exponent of a
  positive \<open>a\<close>.
\<close>

definition round_half_even :: "real \<Rightarrow> int" where
  "round_half_even x =
     (let f = \<lfloor>x\<rfloor>; d = x - of_int f
      in if d < 1 / 2 then f else if 1 / 2 < d then f + 1 else if even f then f else f + 1)"

definition floor_log2 :: "real \<Rightarrow> int" where
  "floor_log2 a = (if 1 \<le> a then bitlen \<lfloor>a\<rfloor> - 1 else - bitlen (\<lceil>1 / a\<rceil> - 1))"

definition rnd :: "real \<Rightarrow> real" where
  "rnd x =
     (if x = 0 then 0
      else (let e = max (floor_log2 \<bar>x\<bar>) (- 1022); q = 2 powi (e - 52)
            in of_int (round_half_even (x / q)) * q))"

text \<open>A C \<^verbatim>\<open>int\<close> of 32 bits: the result of an operation, wrapped around.\<close>

definition wrap32 :: "int \<Rightarrow> int" where
  "wrap32 i = (i + 2147483648) mod 4294967296 - 2147483648"

subsection \<open>pandas.to_numeric on one text\<close>

text \<open>
  \<^verbatim>\<open>pd.to_numeric(series, errors='coerce')\<close> is a library call. On a text element it
  runs \<^verbatim>\<open>floatify\<close>, which runs \<^verbatim>\<open>to_double\<close>, which runs the tokenizer's
  \<^verbatim>\<open>precise_xstrtod\<close> on the text as a C string (it ends at the first NUL) and wants the
  whole string read. \<^verbatim>\<open>precise_xstrtod\<close> skips blanks, reads a sign, the digits before and
  after the point (at least one digit in all), an exponent, and skips blanks:
  \<^item> the first 17 digits are accumulated in a \<^verbatim>\<open>double\<close> by
    \<^verbatim>\<open>number = number * 10. + digit\<close>; each further digit before the point adds one to the
    decimal exponent, each further digit after the point is dropped;
  \<^item> the exponent after \<^verbatim>\<open>e\<close> or \<^verbatim>\<open>E\<close> is accumulated in an \<^verbatim>\<open>int\<close> from at most 17
    digits; an \<^verbatim>\<open>e\<close> with no digit is not read, so that the text is not read whole;
  \<^item> a decimal exponent above 308 is an error; otherwise \<open>number\<close> is multiplied or divided
    by a power of ten from the table \<^verbatim>\<open>e[]\<close> of the literals \<^verbatim>\<open>1e0\<close> to \<^verbatim>\<open>1e308\<close> (in two
    steps below \<open>- 308\<close>, and 0 below \<open>- 616\<close>), and an infinite result is an error.

  When \<^verbatim>\<open>to_double\<close> fails, \<^verbatim>\<open>floatify\<close> compares the text with the words for the
  infinities without regard to ASCII case, and raises on any other text;
  \<^verbatim>\<open>errors='coerce'\<close> turns that into NaN. pandas keeps a column whose elements all
  read as integers as 64-bit integers; the model gives the float of each element, which
  is the same number wherever it is below \<open>2 ^ 53\<close>.
\<close>

definition digits_double :: "ustring \<Rightarrow> real" where
  "digits_double ds = foldl (\<lambda>number c. rnd (rnd (number * 10) + real (c - 48))) 0 ds"

definition digits_int :: "ustring \<Rightarrow> int" where
  "digits_int ds = foldl (\<lambda>n c. wrap32 (wrap32 (n * 10) + int (c - 48))) 0 ds"

definition e10 :: "nat \<Rightarrow> real" where
  "e10 k = rnd (10 ^ k)"

definition split_sign :: "ustring \<Rightarrow> bool \<times> ustring" where
  "split_sign s =
     (case s of
        [] \<Rightarrow> (False, [])
      | c # r \<Rightarrow> if c = 45 then (True, r) else if c = 43 then (False, r) else (False, s))"

definition split_fraction :: "ustring \<Rightarrow> ustring \<times> ustring" where
  "split_fraction s =
     (case s of
        [] \<Rightarrow> ([], [])
      | c # r \<Rightarrow> if c = 46 then (takeWhile is_digit r, dropWhile is_digit r) else ([], s))"

definition split_exponent :: "ustring \<Rightarrow> (int \<times> ustring) option" where
  "split_exponent s =
     (case s of
        [] \<Rightarrow> Some (0, [])
      | c # r \<Rightarrow>
          if c = 101 \<or> c = 69 then
            (let (neg, r1) = split_sign r; ds = take 17 (takeWhile is_digit r1)
             in if ds = [] then None
                else Some ((if neg then - digits_int ds else digits_int ds),
                           drop (length ds) r1))
          else Some (0, s))"

definition scale10 :: "real \<Rightarrow> int \<Rightarrow> real option" where
  "scale10 number exponent =
     (if 308 < exponent then None
      else (let v = (if 0 < exponent then rnd (number * e10 (nat exponent))
                     else if exponent < - 308 then
                       (if exponent < - 616 then 0
                        else rnd (rnd (number / e10 (nat (- 308 - exponent))) / e10 308))
                     else rnd (number / e10 (nat (- exponent))))
            in if 2 ^ 1024 \<le> \<bar>v\<bar> then None else Some v))"

definition to_double :: "ustring \<Rightarrow> real option" where
  "to_double item =
     (let (neg, s1) = split_sign (dropWhile is_space_ascii item);
          ip = takeWhile is_digit s1;
          (fp, s3) = split_fraction (dropWhile is_digit s1);
          ni = min 17 (length ip);
          nf = min (17 - ni) (length fp)
      in if ip = [] \<and> fp = [] then None
         else (case split_exponent s3 of
                 None \<Rightarrow> None
               | Some (n, s4) \<Rightarrow>
                   if dropWhile is_space_ascii s4 \<noteq> [] then None
                   else (let number = digits_double (take ni ip @ take nf fp);
                             exponent = wrap32 (int (length ip - ni) - int nf + n)
                         in scale10 (if neg then - number else number) exponent)))"

definition floatify :: "ustring \<Rightarrow> pyfloat" where
  "floatify val =
     (let data = takeWhile (\<lambda>c. c \<noteq> 0) val
      in case to_double data of
           Some x \<Rightarrow> Finite x
         | None \<Rightarrow>
             (let w = map tolower_ascii data
              in if w = ustr ''nan'' then NaN
                 else if w \<in> set [ustr ''inf'', ustr ''+inf'', ustr ''infinity'', ustr ''+infinity'']
                   then PosInf
                 else if w \<in> set [ustr ''-inf'', ustr ''-infinity''] then NegInf
                 else NaN))"

text \<open>\<open>None\<close> is a missing cell of the series, which stays missing.\<close>

definition to_numeric :: "ustring option \<Rightarrow> pyfloat" where
  "to_numeric cell =
     (case cell of
        None \<Rightarrow> NaN
      | Some val \<Rightarrow> if val = [] then NaN else floatify val)"

section \<open>Cleaning (training pipeline)\<close>




text \<open>
  \<^verbatim>\<open>clean_price\<close>. The character class of the source file holds, as the file is decoded,
  the code points U+00E2, U+201A and U+00B9, the comma, and \<^verbatim>\<open>\s\<close>.
\<close>

definition price_class :: "nat \<Rightarrow> bool" where
  "price_class c = (c = 226 \<or> c = 8218 \<or> c = 185 \<or> c = 44 \<or> is_space_unicode c)"

definition clean_price_text :: "ustring \<Rightarrow> ustring" where
  "clean_price_text s = str_replace (ustr ''INR'') [] (filter (\<lambda>c. \<not> price_class c) s)"

definition clean_price_cell :: "ustring option \<Rightarrow> pyfloat" where
  "clean_price_cell cell = to_numeric (map_option clean_price_text cell)"

definition clean_price :: "ustring option list \<Rightarrow> pyfloat list" where
  "clean_price price_series = map clean_price_cell price_series"

section \<open>Decimal numerals\<close>














section \<open>Exceptions, the libraries, the artifact files\<close>

text \<open>
  \<open>CustomException\<close> is the class of \<^verbatim>\<open>exceptions.py\<close>; it is always raised with a
  message only, so \<^verbatim>\<open>str(e)\<close> is that message. \<open>PyError\<close> is any other Python exception,
  with its \<^verbatim>\<open>str(e)\<close>.
\<close>

datatype exn = CustomException ustring | PyError ustring

definition exn_str :: "exn \<Rightarrow> ustring" where
  "exn_str e = (case e of CustomException m \<Rightarrow> m | PyError m \<Rightarrow> m)"

text \<open>
  A two-dimensional array handed to scikit-learn: floats, or fixed-width unicode text with
  its item width.
\<close>

datatype matrix = FloatMatrix "pyfloat list list" | StrMatrix nat "ustring list list"

text \<open>
  What the pipelines call in Python, numpy and scikit-learn and do not define themselves.
  \<open>'o\<close> is a Python object (a fitted scaler or regressor), \<open>'p\<close> is what
  \<^verbatim>\<open>model.predict\<close> returns. \<open>Inl\<close> is the exception a call raises.
  \<^item> \<open>float_str\<close>: the text of a float (\<^verbatim>\<open>str(x)\<close>);
  \<^item> \<open>scaler_fit\<close>: \<^verbatim>\<open>StandardScaler().fit(X)\<close>;
  \<^item> \<open>scaler_transform\<close>: \<^verbatim>\<open>scaler.transform(X)\<close>;
  \<^item> \<open>forest_fit n seed\<close>: \<^verbatim>\<open>RandomForestRegressor(n_estimators=n, random_state=seed).fit(X, y)\<close>;
  \<^item> \<open>model_predict\<close>: \<^verbatim>\<open>model.predict(X)\<close>.
\<close>

record ('o, 'p) library =
  float_str :: "pyfloat \<Rightarrow> ustring"
  scaler_fit :: "pyfloat list list \<Rightarrow> exn + 'o"
  scaler_transform :: "'o \<Rightarrow> matrix \<Rightarrow> exn + pyfloat list list"
  forest_fit :: "nat \<Rightarrow> nat \<Rightarrow> pyfloat list list \<Rightarrow> pyfloat list \<Rightarrow> exn + 'o"
  model_predict :: "'o \<Rightarrow> pyfloat list list \<Rightarrow> exn + 'p"

text \<open>
  A file under \<^verbatim>\<open>artifacts/\<close>: a pickle of a Python object (\<open>None\<close> is Python's
  \<^verbatim>\<open>None\<close>), or a file that \<^verbatim>\<open>open\<close> or \<^verbatim>\<open>pickle.load\<close> fails on with the given
  message. A path that the map does not hold is a missing file.
\<close>

datatype 'o artifact = Pickle "'o option" | Unreadable ustring

type_synonym 'o filesystem = "ustring \<rightharpoonup> 'o artifact"

text \<open>An artifact is absent when loading its path raises: no file, or an unreadable one.\<close>

definition artifact_absent :: "'o filesystem \<Rightarrow> ustring \<Rightarrow> bool" where
  "artifact_absent fs path = (case fs path of Some (Pickle obj) \<Rightarrow> False | _ \<Rightarrow> True)"

section \<open>Prediction pipeline\<close>

record 'o ModelPredictor =
  model_path :: ustring
  scaler_path :: ustring
  model :: "'o option"
  scaler :: "'o option"

definition load_model :: "'o filesystem \<Rightarrow> ustring \<Rightarrow> exn + 'o option" where
  "load_model fs path =
     (case fs path of
        None \<Rightarrow> Inl (CustomException (ustr ''Model file not found at '' @ path))
      | Some (Unreadable msg) \<Rightarrow> Inl (CustomException (ustr ''Error loading model: '' @ msg))
      | Some (Pickle obj) \<Rightarrow> Inr obj)"

definition load_scaler :: "'o filesystem \<Rightarrow> ustring \<Rightarrow> exn + 'o option" where
  "load_scaler fs path =
     (case fs path of
        None \<Rightarrow> Inl (CustomException (ustr ''Scaler file not found at '' @ path))
      | Some (Unreadable msg) \<Rightarrow> Inl (CustomException (ustr ''Error loading scaler: '' @ msg))
      | Some (Pickle obj) \<Rightarrow> Inr obj)"

text \<open>
  \<^verbatim>\<open>ModelPredictor.__init__\<close>. The inner \<^verbatim>\<open>case\<close> is the \<^verbatim>\<open>try\<close> block (the model is
  loaded first, then the scaler), the outer one is \<^verbatim>\<open>except Exception\<close>. The result is
  a sum so that a caller can tell a constructor that raises from one that returns.
\<close>

definition ModelPredictor_init ::
  "'o filesystem \<Rightarrow> ustring \<Rightarrow> ustring \<Rightarrow> exn + 'o ModelPredictor" where
  "ModelPredictor_init fs mpath spath =
     (case (case load_model fs mpath of
              Inl e \<Rightarrow> Inl e
            | Inr m \<Rightarrow> (case load_scaler fs spath of Inl e \<Rightarrow> Inl e | Inr s \<Rightarrow> Inr (m, s))) of
        Inr (m, s) \<Rightarrow>
          Inr \<lparr>model_path = mpath, scaler_path = spath, model = m, scaler = s\<rparr>
      | Inl e \<Rightarrow>
          Inr \<lparr>model_path = mpath, scaler_path = spath, model = None, scaler = None\<rparr>)"

subsection \<open>The input list as a numpy array\<close>

text \<open>
  A field of the request: a JSON integer (within numpy's default integer, int64), a JSON
  float, or a JSON string.
\<close>

datatype field = IntField "64 word" | FloatField pyfloat | StrField ustring

datatype ndarray =
    IntArray "64 word list"
  | FloatArray "pyfloat list"
  | StrArray nat "ustring list"

definition is_str_field :: "field \<Rightarrow> bool" where
  "is_str_field f = (case f of StrField s \<Rightarrow> True | _ \<Rightarrow> False)"

definition is_float_field :: "field \<Rightarrow> bool" where
  "is_float_field f = (case f of FloatField x \<Rightarrow> True | _ \<Rightarrow> False)"

text \<open>
  The item width numpy gives a unicode array built from mixed scalars: a string brings
  its length, an int64 brings 21 and a float64 brings 32, and the width is at least 1.
\<close>

definition field_width :: "field \<Rightarrow> nat" where
  "field_width f = (case f of IntField i \<Rightarrow> 21 | FloatField x \<Rightarrow> 32 | StrField s \<Rightarrow> length s)"

definition itemsize :: "field list \<Rightarrow> nat" where
  "itemsize input_data = foldr max (map field_width input_data) 1"

definition field_text :: "('o, 'p) library \<Rightarrow> field \<Rightarrow> ustring" where
  "field_text lib f =
     (case f of
        IntField i \<Rightarrow> str_int (sint i)
      | FloatField x \<Rightarrow> float_str lib x
      | StrField s \<Rightarrow> s)"

definition field_float :: "field \<Rightarrow> pyfloat" where
  "field_float f =
     (case f of
        IntField i \<Rightarrow> Finite (real_of_int (sint i))
      | FloatField x \<Rightarrow> x
      | StrField s \<Rightarrow> NaN)"

definition field_int :: "field \<Rightarrow> 64 word" where
  "field_int f = (case f of IntField i \<Rightarrow> i | _ \<Rightarrow> 0)"

text \<open>
  \<^verbatim>\<open>np.array(input_data)\<close> on a list of scalars: one string makes the whole array text;
  otherwise one float makes it float64; otherwise it is int64 (float64 when empty).
  \<open>field_float\<close> and \<open>field_int\<close> are only applied where no string, respectively no
  string and no float, is present.
\<close>

definition np_array :: "('o, 'p) library \<Rightarrow> field list \<Rightarrow> ndarray" where
  "np_array lib input_data =
     (if list_ex is_str_field input_data
        then StrArray (itemsize input_data) (map (field_text lib) input_data)
      else if list_ex is_float_field input_data \<or> input_data = []
        then FloatArray (map field_float input_data)
      else IntArray (map field_int input_data))"

definition index_error :: "nat \<Rightarrow> exn" where
  "index_error n =
     PyError (ustr ''index 4 is out of bounds for axis 0 with size '' @ str_nat n)"

definition attribute_error :: "string \<Rightarrow> exn" where
  "attribute_error ty =
     PyError (ustr ([CHR 0x27] @ ty @ [CHR 0x27] @ '' object has no attribute ''
                    @ [CHR 0x27] @ ''lower'' @ [CHR 0x27]))"

definition name_error :: exn where
  "name_error =
     PyError (ustr (''name '' @ [CHR 0x27] @ ''predictor'' @ [CHR 0x27] @ '' is not defined''))"

definition not_loaded_message :: ustring where
  "not_loaded_message = ustr ''Model or scaler not loaded. Please ensure both files exist.''"

text \<open>
  Python's \<^verbatim>\<open>str\<close> of the floats that the resolver returns: the values of the table and
  the default.
\<close>

definition python_speed_texts :: "(real \<times> ustring) list" where
  "python_speed_texts =
     [(3.78, ustr ''3.78''), (3.46, ustr ''3.46''), (3.23, ustr ''3.23''), (3.1, ustr ''3.1''),
      (2.65, ustr ''2.65''), (2.5, ustr ''2.5''), (2.4, ustr ''2.4''), (3.3, ustr ''3.3''),
      (3.2, ustr ''3.2''), (3.0, ustr ''3.0''), (2.91, ustr ''2.91''), (3.25, ustr ''3.25''),
      (3.05, ustr ''3.05''), (3.35, ustr ''3.35''), (2.8, ustr ''2.8''), (2.85, ustr ''2.85''),
      (2.0, ustr ''2.0'')]"


text \<open>
  The statements of \<^verbatim>\<open>make_prediction\<close> from \<^verbatim>\<open>np.array(input_data)\<close> to
  \<^verbatim>\<open>reshape(1, -1)\<close>. Writing the float \<open>processor_speed\<close> into position 4 of a
  unicode array stores its text cut to the item width. On a numeric array
  \<^verbatim>\<open>input_data[4]\<close> is a numpy number, which has no \<^verbatim>\<open>lower\<close>.
\<close>

definition replace_processor :: "('o, 'p) library \<Rightarrow> field list \<Rightarrow> exn + matrix" where
  "replace_processor lib input_data =
     (case np_array lib input_data of
        StrArray w xs \<Rightarrow>
          if length xs \<le> 4 then Inl (index_error (length xs))
          else
            (let processor = xs ! 4;
                 processor_speed = prediction_get_processor_speed processor
             in Inr (StrMatrix w [xs[4 := take w (float_str lib (Finite processor_speed))]]))
      | IntArray xs \<Rightarrow>
          if length xs \<le> 4 then Inl (index_error (length xs))
          else Inl (attribute_error ''numpy.int64'')
      | FloatArray xs \<Rightarrow>
          if length xs \<le> 4 then Inl (index_error (length xs))
          else Inl (attribute_error ''numpy.float64''))"

text \<open>The \<^verbatim>\<open>try\<close> block of \<^verbatim>\<open>make_prediction\<close>.\<close>

definition make_prediction_try ::
  "('o, 'p) library \<Rightarrow> 'o ModelPredictor \<Rightarrow> field list \<Rightarrow> exn + 'p" where
  "make_prediction_try lib self input_data =
     (case (model self, scaler self) of
        (Some m, Some s) \<Rightarrow>
          (case replace_processor lib input_data of
             Inl e \<Rightarrow> Inl e
           | Inr input_array \<Rightarrow>
               (case scaler_transform lib s input_array of
                  Inl e \<Rightarrow> Inl e
                | Inr input_scaled \<Rightarrow> model_predict lib m input_scaled))
      | _ \<Rightarrow> Inl (CustomException not_loaded_message))"

text \<open>\<^verbatim>\<open>make_prediction\<close>: the block above under \<^verbatim>\<open>except Exception as e\<close>.\<close>

definition make_prediction ::
  "('o, 'p) library \<Rightarrow> 'o ModelPredictor \<Rightarrow> field list \<Rightarrow> exn + 'p" where
  "make_prediction lib self input_data =
     (case make_prediction_try lib self input_data of
        Inl e \<Rightarrow> Inl (CustomException (ustr ''Error in making prediction: '' @ exn_str e))
      | Inr prediction \<Rightarrow> Inr prediction)"

section \<open>The application\<close>

text \<open>
  The module-level \<^verbatim>\<open>try\<close> of \<^verbatim>\<open>application.py\<close>: the two globals after import. When
  the constructor raises, \<^verbatim>\<open>predictor\<close> is left unbound.
\<close>

record 'o app =
  predictor :: "'o ModelPredictor option"
  MODEL_LOADED :: bool

definition default_model_path :: ustring where
  "default_model_path = ustr ''artifacts/best_model.pkl''"

definition default_scaler_path :: ustring where
  "default_scaler_path = ustr ''artifacts/scaler.pkl''"

definition startup :: "'o filesystem \<Rightarrow> 'o app" where
  "startup fs =
     (case ModelPredictor_init fs default_model_path default_scaler_path of
        Inr p \<Rightarrow> \<lparr>predictor = Some p, MODEL_LOADED = True\<rparr>
      | Inl e \<Rightarrow> \<lparr>predictor = None, MODEL_LOADED = False\<rparr>)"

datatype 'p body = Prediction 'p | Error ustring

definition required_features :: "ustring list" where
  "required_features =
     [ustr ''Mobile Weight'', ustr ''RAM'', ustr ''Front Camera'', ustr ''Back Camera'',
      ustr ''Processor'', ustr ''Battery Capacity'', ustr ''Screen Size'',
      ustr ''Launched Year'']"

definition missing_features_message :: ustring where
  "missing_features_message = ustr ''Missing required features in input data.''"

definition model_not_loaded_503 :: ustring where
  "model_not_loaded_503 =
     ustr ''Model not loaded. Please ensure model file exists in artifacts/best_model.pkl''"

text \<open>
  The handler of \<^verbatim>\<open>POST /predict\<close>; \<open>data\<close> is the JSON object of the request, the
  result is the status code and the JSON body. The list \<open>input_data\<close> is read in the
  order of \<open>required_features\<close>, which is the order the source reads it in.
\<close>

definition predict ::
  "('o, 'p) library \<Rightarrow> 'o app \<Rightarrow> (ustring \<rightharpoonup> field) \<Rightarrow> nat \<times> 'p body" where
  "predict lib st data =
     (if \<not> MODEL_LOADED st then (503, Error model_not_loaded_503)
      else if \<not> list_all (\<lambda>feature. data feature \<noteq> None) required_features
        then (400, Error missing_features_message)
      else
        (case predictor st of
           None \<Rightarrow> (500, Error (exn_str name_error))
         | Some p \<Rightarrow>
             (case make_prediction lib p (map (\<lambda>feature. the (data feature)) required_features) of
                Inl e \<Rightarrow> (500, Error (exn_str e))
              | Inr prediction \<Rightarrow> (200, Prediction prediction))))"

section \<open>Training pipeline\<close>








section \<open>A stand-in for the libraries\<close>

text \<open>
  To run the pipelines on examples: Python's text of a float that has at most two
  decimals, a scaler and a regressor that do nothing of interest. The scaler reads a
  text array the way \<open>floatify\<close> reads text.
\<close>

definition two_decimals :: "pyfloat \<Rightarrow> ustring" where
  "two_decimals x =
     (case x of
        Finite r \<Rightarrow>
          (let n = nat \<lfloor>\<bar>r\<bar> * 100\<rfloor>; d1 = (n mod 100) div 10; d2 = n mod 10
           in (if r < 0 then [45] else []) @ str_nat (n div 100) @ [46]
              @ (if d2 = 0 then [48 + d1] else [48 + d1, 48 + d2]))
      | PosInf \<Rightarrow> ustr ''inf''
      | NegInf \<Rightarrow> ustr ''-inf''
      | NaN \<Rightarrow> ustr ''nan'')"

definition sample_library :: "(nat, pyfloat list) library" where
  "sample_library =
     \<lparr>float_str = two_decimals,
      scaler_fit = (\<lambda>X. if X = [] then Inl (PyError (ustr ''no samples'')) else Inr (length X)),
      scaler_transform =
        (\<lambda>sc M. case M of
                   FloatMatrix X \<Rightarrow> Inr X
                 | StrMatrix w rows \<Rightarrow> Inr (map (map floatify) rows)),
      forest_fit = (\<lambda>n seed X y. Inr (n + seed)),
      model_predict = (\<lambda>m X. Inr (map (\<lambda>row. Finite (real m)) X))\<rparr>"

text \<open>
  The request of the \<^verbatim>\<open>__main__\<close> example of \<^verbatim>\<open>prediction_pipeline.py\<close>, the same
  request without \<^verbatim>\<open>RAM\<close>, and a request whose fields are all short strings.
\<close>

definition sample_request :: "ustring \<rightharpoonup> field" where
  "sample_request =
     map_of [(ustr ''Mobile Weight'', IntField 180), (ustr ''RAM'', IntField 8),
             (ustr ''Front Camera'', IntField 16), (ustr ''Back Camera'', IntField 48),
             (ustr ''Processor'', StrField (ustr ''A17 Bionic'')),
             (ustr ''Battery Capacity'', IntField 4500),
             (ustr ''Screen Size'', FloatField (Finite 6.5)),
             (ustr ''Launched Year'', IntField 2023)]"

definition sample_request_no_ram :: "ustring \<rightharpoonup> field" where
  "sample_request_no_ram =
     map_of [(ustr ''Mobile Weight'', IntField 180),
             (ustr ''Front Camera'', IntField 16), (ustr ''Back Camera'', IntField 48),
             (ustr ''Processor'', StrField (ustr ''A17 Bionic'')),
             (ustr ''Battery Capacity'', IntField 4500),
             (ustr ''Screen Size'', FloatField (Finite 6.5)),
             (ustr ''Launched Year'', IntField 2023)]"

definition numeric_input :: "field list" where
  "numeric_input =
     [IntField 1, IntField 1, IntField 1, IntField 1, StrField (ustr ''X''),
      IntField 1, IntField 1, IntField 1]"

definition short_text_input :: "field list" where
  "short_text_input =
     [StrField (ustr ''1''), StrField (ustr ''1''), StrField (ustr ''1''),
      StrField (ustr ''1''), StrField (ustr ''X''), StrField (ustr ''1''),
      StrField (ustr ''1''), StrField (ustr ''1'')]"

definition sample_artifacts :: "nat filesystem" where
  "sample_artifacts =
     [default_model_path \<mapsto> Pickle (Some 142), default_scaler_path \<mapsto> Pickle (Some 1)]"





section \<open>Properties of the resolver\<close>

lemma starts_with_prefix: "starts_with p s = prefix p s"
  by (induction p s rule: starts_with.induct) auto

lemma str_in_sublist: "str_in needle hay = sublist needle hay"
proof (induction hay)
  case Nil
  show ?case by simp
next
  case (Cons c cs)
  show ?case
  proof (cases needle)
    case Nil
    then show ?thesis by simp
  next
    case (Cons p ps)
    then show ?thesis
      using Cons.IH by (simp add: starts_with_prefix sublist_Cons_right)
  qed
qed

lemma speed_loop_find:
  "speed_loop items name =
     (case find (\<lambda>(key, val). sublist (lower key) (lower name)) items of
        Some (key, val) \<Rightarrow> val
      | None \<Rightarrow> 2)"
  by (induction items name rule: speed_loop.induct) (simp_all add: str_in_sublist)

lemma lower_from_ascii:
  "list_all (\<lambda>c. c < 128) s \<Longrightarrow> lower_from before s = map tolower_ascii s"
  by (induction s arbitrary: before) (auto simp: lower_cp_def)

lemma lower_ascii: "list_all (\<lambda>c. c < 128) s \<Longrightarrow> lower s = map tolower_ascii s"
  by (simp add: lower_def lower_from_ascii)

lemma lower_Nil: "lower [] = []"
  by (simp add: lower_def)

text \<open>
  C1. The resolver of the training pipeline and the resolver of the prediction pipeline
  use the same table (same entries, same values, same order) and return the same GHz
  value on every string.
\<close>

theorem resolvers_agree:
  "training_processor_speeds = prediction_processor_speeds \<and>
   training_get_processor_speed processor_name = prediction_get_processor_speed processor_name"
  by (simp add: training_processor_speeds_def prediction_processor_speeds_def
      training_get_processor_speed_def prediction_get_processor_speed_def)

lemma lower_table_targets:
  "list_all (\<lambda>(lo, hi, step, t). 128 \<le> t \<or> (lo = 8490 \<and> hi = 8490)) lower_table"
  by (simp add: lower_table_def)

lemma lower_simple_high: "128 \<le> c \<Longrightarrow> c \<noteq> 8490 \<Longrightarrow> 128 \<le> lower_simple c"
proof -
  assume c: "128 \<le> c" "c \<noteq> 8490"
  show ?thesis
  proof (cases "find (\<lambda>(lo, hi, step, t). lo \<le> c \<and> c \<le> hi \<and> (c - lo) mod step = 0) lower_table")
    case None
    with c show ?thesis by (simp add: lower_simple_def)
  next
    case (Some e)
    obtain lo hi step t where e: "e = (lo, hi, step, t)" by (cases e) auto
    from Some e have mem: "(lo, hi, step, t) \<in> set lower_table" and rng: "lo \<le> c" "c \<le> hi"
      by (auto simp: find_Some_iff in_set_conv_nth)
    from mem lower_table_targets have "128 \<le> t \<or> (lo = 8490 \<and> hi = 8490)"
      by (auto simp: list_all_iff)
    with rng c have "128 \<le> t" by auto
    with Some e show ?thesis by (simp add: lower_simple_def)
  qed
qed

lemma lower_simple_kelvin: "lower_simple 8490 = 107"
  by (simp add: lower_simple_def lower_table_def)

lemma lower_one:
  assumes "c \<noteq> 304"
  shows "\<exists>d. (if c = 931 then [if final_sigma b a then 962 else 963] else lower_cp c) = [d]
           \<and> (\<forall>k<128. (tolower_ascii k = d) = spec_same_letter k c)"
proof -
  consider "c < 128" | "c = 931" | "c = 8490" | "128 \<le> c" "c \<noteq> 931" "c \<noteq> 8490"
    by linarith
  then show ?thesis
  proof cases
    case 1
    then show ?thesis
      by (auto simp: lower_cp_def tolower_ascii_def spec_same_letter_def)
  next
    case 2
    then show ?thesis by (auto simp: tolower_ascii_def spec_same_letter_def)
  next
    case 3
    then show ?thesis
      by (auto simp: lower_cp_def lower_simple_kelvin tolower_ascii_def spec_same_letter_def)
  next
    case 4
    with assms have "lower_cp c = [lower_simple c]" by (simp add: lower_cp_def)
    moreover from 4 have "128 \<le> lower_simple c" by (simp add: lower_simple_high)
    ultimately show ?thesis
      using 4 by (auto simp: tolower_ascii_def spec_same_letter_def)
  qed
qed

lemma lower_from_letters:
  "304 \<notin> set s \<Longrightarrow>
   list_all2 (\<lambda>c d. \<forall>k<128. (tolower_ascii k = d) = spec_same_letter k c) s (lower_from before s)"
proof (induction s arbitrary: before)
  case Nil
  show ?case by simp
next
  case (Cons c cs)
  then have "c \<noteq> 304" by auto
  from lower_one [OF this, of before cs] obtain d where
    d: "(if c = 931 then [if final_sigma before cs then 962 else 963] else lower_cp c) = [d]"
       "\<forall>k<128. (tolower_ascii k = d) = spec_same_letter k c"
    by blast
  from Cons have "list_all2 (\<lambda>c d. \<forall>k<128. (tolower_ascii k = d) = spec_same_letter k c) cs
      (lower_from (c # before) cs)" by simp
  with d show ?case by simp
qed

lemma caseless_prefix_lower:
  "list_all (\<lambda>k. k < 128) key \<Longrightarrow>
   list_all2 (\<lambda>c d. \<forall>k<128. (tolower_ascii k = d) = spec_same_letter k c) s l \<Longrightarrow>
   starts_with (map tolower_ascii key) l = spec_caseless_prefix key s"
proof (induction key arbitrary: s l)
  case Nil
  show ?case by simp
next
  case (Cons k ks)
  show ?case
  proof (cases s)
    case Nil
    with Cons.prems show ?thesis by simp
  next
    case (Cons c cs)
    with Cons.prems obtain d ds where l: "l = d # ds"
      and cd: "\<forall>k<128. (tolower_ascii k = d) = spec_same_letter k c"
      and rest: "list_all2 (\<lambda>c d. \<forall>k<128. (tolower_ascii k = d) = spec_same_letter k c) cs ds"
      by (auto simp: list_all2_Cons1)
    from Cons.prems(1) have k: "k < 128" and ks: "list_all (\<lambda>k. k < 128) ks" by simp_all
    from Cons.IH [OF ks rest] k cd show ?thesis by (simp add: l Cons)
  qed
qed

lemma caseless_in_lower:
  "list_all (\<lambda>k. k < 128) key \<Longrightarrow>
   list_all2 (\<lambda>c d. \<forall>k<128. (tolower_ascii k = d) = spec_same_letter k c) s l \<Longrightarrow>
   str_in (map tolower_ascii key) l = spec_caseless_in key s"
proof (induction s arbitrary: l)
  case Nil
  then show ?case by simp
next
  case (Cons c cs)
  then obtain d ds where l: "l = d # ds"
    and rest: "list_all2 (\<lambda>c d. \<forall>k<128. (tolower_ascii k = d) = spec_same_letter k c) cs ds"
    by (auto simp: list_all2_Cons1)
  from caseless_prefix_lower [OF Cons.prems] Cons.IH [OF Cons.prems(1) rest]
  show ?case by (simp add: l)
qed

lemma key_match_caseless:
  "list_all (\<lambda>k. k < 128) key \<Longrightarrow> 304 \<notin> set name \<Longrightarrow>
   sublist (lower key) (lower name) = spec_caseless_in key name"
proof -
  assume k: "list_all (\<lambda>k. k < 128) key" and n: "304 \<notin> set name"
  from k have "lower key = map tolower_ascii key" by (rule lower_ascii)
  moreover have "str_in (map tolower_ascii key) (lower name) = spec_caseless_in key name"
    unfolding lower_def by (rule caseless_in_lower [OF k lower_from_letters [OF n]])
  ultimately show ?thesis by (simp add: str_in_sublist)
qed

lemma prediction_keys_ascii:
  "list_all (\<lambda>(key, val). list_all (\<lambda>k. k < 128) key) prediction_processor_speeds"
  by (simp add: prediction_processor_speeds_def ustr_def)

lemma find_caseless:
  assumes "304 \<notin> set name"
  shows "find (\<lambda>(key, val). sublist (lower key) (lower name)) prediction_processor_speeds =
         find (\<lambda>(key, val). spec_caseless_in key name) prediction_processor_speeds"
proof (rule find_cong [OF refl])
  fix x assume "x \<in> set prediction_processor_speeds"
  with prediction_keys_ascii have "list_all (\<lambda>k. k < 128) (fst x)"
    by (auto simp: list_all_iff)
  with assms show "(case x of (key, val) \<Rightarrow> sublist (lower key) (lower name)) =
      (case x of (key, val) \<Rightarrow> spec_caseless_in key name)"
    by (cases x) (simp add: key_match_caseless)
qed

text \<open>
  C2. The resolver returns the value of the first entry, in the order of the table, whose
  lower-cased key is a contiguous part of the lower-cased input, and 2.0 when no entry
  matches, also on the empty string. On every input without U+0130 (the one code point
  that Python lowers to two) this is the first entry whose key is a case-insensitive
  substring of the input in the sense of \<open>spec_caseless_in\<close>, which does not mention
  lower-casing. It is a function on all strings: no branch of it raises.
\<close>

theorem resolver_first_match:
  "prediction_get_processor_speed name =
     (case find (\<lambda>(key, val). sublist (lower key) (lower name)) prediction_processor_speeds of
        Some (key, val) \<Rightarrow> val
      | None \<Rightarrow> 2)
   \<and> (304 \<notin> set name \<longrightarrow>
        prediction_get_processor_speed name =
          (case find (\<lambda>(key, val). spec_caseless_in key name) prediction_processor_speeds of
             Some (key, val) \<Rightarrow> val
           | None \<Rightarrow> 2))
   \<and> ((\<forall>(key, val) \<in> set prediction_processor_speeds. \<not> sublist (lower key) (lower name))
        \<longrightarrow> prediction_get_processor_speed name = 2)
   \<and> prediction_get_processor_speed [] = 2"
proof (intro conjI impI)
  show first: "prediction_get_processor_speed name =
     (case find (\<lambda>(key, val). sublist (lower key) (lower name)) prediction_processor_speeds of
        Some (key, val) \<Rightarrow> val
      | None \<Rightarrow> 2)"
    unfolding prediction_get_processor_speed_def by (rule speed_loop_find)
  show "prediction_get_processor_speed name =
          (case find (\<lambda>(key, val). spec_caseless_in key name) prediction_processor_speeds of
             Some (key, val) \<Rightarrow> val
           | None \<Rightarrow> 2)" if "304 \<notin> set name"
    using first find_caseless [OF that] by simp
  show "prediction_get_processor_speed name = 2"
    if "\<forall>(key, val) \<in> set prediction_processor_speeds. \<not> sublist (lower key) (lower name)"
  proof -
    from that have "find (\<lambda>(key, val). sublist (lower key) (lower name))
        prediction_processor_speeds = None"
      by (auto simp: find_None_iff)
    with first show ?thesis by simp
  qed
  show "prediction_get_processor_speed [] = 2"
    by (simp add: prediction_get_processor_speed_def prediction_processor_speeds_def
        lower_ascii tolower_ascii_def ustr_def)
qed

lemma unknown_chip_no_key:
  "\<forall>(key, val) \<in> set prediction_processor_speeds.
     \<not> sublist (lower key) (lower (ustr ''Unknown Chip X''))"
  by (simp add: prediction_processor_speeds_def ustr_def lower_ascii tolower_ascii_def sublist_code)

lemma mixed_case_find:
  "find (\<lambda>(key, val). spec_caseless_in key (ustr ''MEDIATEK dimensity 9300 5G''))
     prediction_processor_speeds = Some (ustr ''MediaTek Dimensity 9300'', 3.25)"
  by (simp add: prediction_processor_speeds_def ustr_def spec_same_letter_def)

lemma kelvin_find:
  "find (\<lambda>(key, val). spec_caseless_in key (ustr ''MediaTe'' @ [8490] @ ustr '' Dimensity 9300''))
     prediction_processor_speeds = Some (ustr ''MediaTek Dimensity 9300'', 3.25)"
  by (simp add: prediction_processor_speeds_def ustr_def spec_same_letter_def)

text \<open>
  An input in another case than the key, an input with the Kelvin sign for the letter k,
  and an input that matches no key.
\<close>

theorem resolver_first_match_witness:
  "304 \<notin> set (ustr ''MEDIATEK dimensity 9300 5G'')
   \<and> prediction_get_processor_speed (ustr ''MEDIATEK dimensity 9300 5G'') = 3.25
   \<and> prediction_get_processor_speed (ustr ''MediaTe'' @ [8490] @ ustr '' Dimensity 9300'') = 3.25
   \<and> find (\<lambda>(key, val). sublist (lower key) (lower (ustr ''Unknown Chip X'')))
       prediction_processor_speeds = None
   \<and> prediction_get_processor_speed (ustr ''Unknown Chip X'') = 2"
proof -
  have a: "304 \<notin> set (ustr ''MEDIATEK dimensity 9300 5G'')"
    and b: "304 \<notin> set (ustr ''MediaTe'' @ [8490] @ ustr '' Dimensity 9300'')"
    by (simp_all add: ustr_def)
  have c: "find (\<lambda>(key, val). sublist (lower key) (lower (ustr ''Unknown Chip X'')))
      prediction_processor_speeds = None"
    using unknown_chip_no_key by (auto simp: find_None_iff)
  from resolver_first_match [of "ustr ''MEDIATEK dimensity 9300 5G''"] a mixed_case_find
  have 1: "prediction_get_processor_speed (ustr ''MEDIATEK dimensity 9300 5G'') = 3.25"
    by simp
  from resolver_first_match [of "ustr ''MediaTe'' @ [8490] @ ustr '' Dimensity 9300''"] b
    kelvin_find
  have 2: "prediction_get_processor_speed
      (ustr ''MediaTe'' @ [8490] @ ustr '' Dimensity 9300'') = 3.25"
    by simp
  from resolver_first_match [of "ustr ''Unknown Chip X''"] unknown_chip_no_key
  have 3: "prediction_get_processor_speed (ustr ''Unknown Chip X'') = 2" by blast
  from a 1 2 c 3 show ?thesis by blast
qed

lemma resolver_examples:
  "prediction_get_processor_speed (ustr ''Apple A17 Bionic Chip'') = 3.78"
  "prediction_get_processor_speed (ustr ''google tensor g3'') = 2.91"
  "prediction_get_processor_speed (ustr ''A17 Bionic'') = 3.78"
  by (simp_all add: prediction_get_processor_speed_def prediction_processor_speeds_def
      ustr_def lower_ascii tolower_ascii_def)

section \<open>Properties of the predictor and of the application\<close>

lemma init_returns:
  "\<exists>p. ModelPredictor_init fs mpath spath = Inr p"
  by (simp add: ModelPredictor_init_def split: sum.split prod.split)

lemma init_absent:
  assumes "artifact_absent fs mpath \<or> artifact_absent fs spath"
    and "ModelPredictor_init fs mpath spath = Inr p"
  shows "model p = None \<and> scaler p = None"
  using assms
  by (auto simp: ModelPredictor_init_def artifact_absent_def load_model_def load_scaler_def
      split: sum.splits prod.splits option.splits artifact.splits)

lemma make_prediction_not_loaded:
  "model self = None \<or> scaler self = None \<Longrightarrow>
   make_prediction lib self input_data =
     Inl (CustomException (ustr ''Error in making prediction: '' @ not_loaded_message))"
  by (auto simp: make_prediction_def make_prediction_try_def exn_str_def split: option.splits)

lemma startup_loaded:
  "MODEL_LOADED (startup fs) \<and>
   (\<exists>p. predictor (startup fs) = Some p \<and>
        ModelPredictor_init fs default_model_path default_scaler_path = Inr p)"
  using init_returns [of fs default_model_path default_scaler_path]
  by (auto simp: startup_def)

lemma predict_status:
  "MODEL_LOADED st \<Longrightarrow> fst (predict lib st data) \<in> {200, 400, 500}"
  by (auto simp: predict_def split: option.splits sum.splits)

lemma sample_request_complete:
  "list_all (\<lambda>feature. sample_request feature \<noteq> None) required_features"
  by (simp add: sample_request_def required_features_def ustr_def)

lemma sample_request_no_ram_missing:
  "sample_request_no_ram (ustr ''RAM'') = None"
  by (simp add: sample_request_no_ram_def ustr_def)

lemma empty_absent: "artifact_absent Map.empty path"
  by (simp add: artifact_absent_def)

text \<open>
  C5. When the model file or the scaler file is absent at startup, the constructor still
  returns a predictor, with neither object set; every call of \<^verbatim>\<open>make_prediction\<close> raises
  the \<open>CustomException\<close> that carries the not-loaded message (behind the prefix that
  \<^verbatim>\<open>make_prediction\<close> puts before every message), and every request to the handler is
  answered with an error body, never with a prediction.
\<close>

theorem absent_artifact_rejects:
  assumes "artifact_absent fs default_model_path \<or> artifact_absent fs default_scaler_path"
  shows "\<exists>p. ModelPredictor_init fs default_model_path default_scaler_path = Inr p
           \<and> predictor (startup fs) = Some p \<and> model p = None \<and> scaler p = None
           \<and> (\<forall>input_data. make_prediction lib p input_data =
                 Inl (CustomException (ustr ''Error in making prediction: '' @ not_loaded_message)))
           \<and> (\<forall>data. \<exists>msg. predict lib (startup fs) data = (400, Error msg)
                          \<or> predict lib (startup fs) data = (500, Error msg))"
proof -
  from startup_loaded [of fs] obtain p where
    loaded: "MODEL_LOADED (startup fs)" and
    p: "predictor (startup fs) = Some p"
       "ModelPredictor_init fs default_model_path default_scaler_path = Inr p"
    by blast
  from init_absent [OF assms p(2)] have none: "model p = None \<and> scaler p = None" .
  have fails: "make_prediction lib p input_data =
      Inl (CustomException (ustr ''Error in making prediction: '' @ not_loaded_message))"
    for input_data
    using none by (simp add: make_prediction_not_loaded)
  have rejects: "\<exists>msg. predict lib (startup fs) data = (400, Error msg)
      \<or> predict lib (startup fs) data = (500, Error msg)" for data
    using loaded p(1) fails by (simp add: predict_def)
  from p none fails rejects show ?thesis by blast
qed

text \<open>With no file at all, the request of the example is answered with that message.\<close>

theorem absent_artifact_rejects_witness:
  "artifact_absent (Map.empty :: nat filesystem) default_model_path
   \<and> predict sample_library (startup Map.empty) sample_request =
       (500, Error (ustr ''Error in making prediction: '' @ not_loaded_message))"
proof -
  have absent: "artifact_absent (Map.empty :: nat filesystem) default_model_path
      \<or> artifact_absent (Map.empty :: nat filesystem) default_scaler_path"
    by (simp add: empty_absent)
  from absent_artifact_rejects [OF absent, of sample_library] obtain p where
    p: "predictor (startup (Map.empty :: nat filesystem)) = Some p" and
    fails: "\<And>input_data. make_prediction sample_library p input_data =
      Inl (CustomException (ustr ''Error in making prediction: '' @ not_loaded_message))"
    by blast
  have "MODEL_LOADED (startup (Map.empty :: nat filesystem))"
    using startup_loaded by blast
  then have "predict sample_library (startup Map.empty) sample_request =
      (500, Error (ustr ''Error in making prediction: '' @ not_loaded_message))"
    using p fails sample_request_complete by (simp add: predict_def exn_str_def)
  then show ?thesis by (simp add: empty_absent)
qed

text \<open>
  C6. The constructor returns a predictor on every file system, so \<open>MODEL_LOADED\<close> is
  true after startup, no request is answered with status 503, and with an absent artifact
  a complete request is answered with status 500 and the wrapped not-loaded message.
\<close>

theorem constructor_never_raises:
  "(\<exists>p. ModelPredictor_init fs mpath spath = Inr p)
   \<and> MODEL_LOADED (startup fs)
   \<and> fst (predict lib (startup fs) data) \<noteq> 503
   \<and> (artifact_absent fs default_model_path \<or> artifact_absent fs default_scaler_path \<longrightarrow>
        list_all (\<lambda>feature. data feature \<noteq> None) required_features \<longrightarrow>
        predict lib (startup fs) data =
          (500, Error (ustr ''Error in making prediction: '' @ not_loaded_message)))"
proof (intro conjI impI)
  show "\<exists>p. ModelPredictor_init fs mpath spath = Inr p" by (rule init_returns)
  show loaded: "MODEL_LOADED (startup fs)" using startup_loaded by blast
  show "fst (predict lib (startup fs) data) \<noteq> 503"
    using predict_status [OF loaded, of lib data] by auto
  show "predict lib (startup fs) data =
      (500, Error (ustr ''Error in making prediction: '' @ not_loaded_message))"
    if absent: "artifact_absent fs default_model_path \<or> artifact_absent fs default_scaler_path"
      and complete: "list_all (\<lambda>feature. data feature \<noteq> None) required_features"
  proof -
    from startup_loaded [of fs] obtain p where
      p: "predictor (startup fs) = Some p"
         "ModelPredictor_init fs default_model_path default_scaler_path = Inr p"
      by blast
    from init_absent [OF absent p(2)] have "model p = None \<or> scaler p = None" by simp
    then show ?thesis
      using loaded p(1) complete
      by (simp add: predict_def make_prediction_not_loaded exn_str_def)
  qed
qed

text \<open>The hypotheses of C6 on the empty file system and the request of the example.\<close>

theorem constructor_never_raises_witness:
  "artifact_absent (Map.empty :: nat filesystem) default_model_path
   \<and> list_all (\<lambda>feature. sample_request feature \<noteq> None) required_features
   \<and> MODEL_LOADED (startup (Map.empty :: nat filesystem))
   \<and> predict sample_library (startup Map.empty) sample_request =
       (500, Error (ustr ''Error in making prediction: '' @ not_loaded_message))"
  using constructor_never_raises [of "Map.empty :: nat filesystem" "[]" "[]" sample_library
      sample_request]
    sample_request_complete empty_absent [of default_model_path]
  by blast

text \<open>
  C4, as amended. A request that lacks a required field is answered with status 400 and
  the fixed message \<^verbatim>\<open>Missing required features in input data.\<close>, whatever the
  libraries and the artifacts are: nothing is built, scaled or predicted. The message does
  not name the field.
\<close>

theorem missing_fields_rejected:
  "feature \<in> set required_features \<Longrightarrow> data feature = None \<Longrightarrow>
   predict lib (startup fs) data = (400, Error missing_features_message)"
proof -
  assume "feature \<in> set required_features" "data feature = None"
  then have "\<not> list_all (\<lambda>feature. data feature \<noteq> None) required_features"
    by (auto simp: list_all_iff)
  moreover have "MODEL_LOADED (startup fs)" using startup_loaded by blast
  ultimately show ?thesis by (simp add: predict_def)
qed

text \<open>The request without \<^verbatim>\<open>RAM\<close> is answered with status 400.\<close>

theorem missing_fields_rejected_witness:
  "ustr ''RAM'' \<in> set required_features \<and> sample_request_no_ram (ustr ''RAM'') = None
   \<and> predict sample_library (startup sample_artifacts) sample_request_no_ram =
       (400, Error missing_features_message)"
  using missing_fields_rejected [of "ustr ''RAM''" sample_request_no_ram sample_library
      sample_artifacts] sample_request_no_ram_missing
  by (simp add: required_features_def)

text \<open>
  C4 as stated fails: for the request without \<^verbatim>\<open>RAM\<close> the message of the answer does
  not contain \<^verbatim>\<open>RAM\<close>.
\<close>

theorem missing_ram_message_counterexample:
  "predict sample_library (startup sample_artifacts) sample_request_no_ram =
     (400, Error missing_features_message)
   \<and> \<not> sublist (ustr ''RAM'') missing_features_message"
proof
  have "\<not> list_all (\<lambda>feature. sample_request_no_ram feature \<noteq> None) required_features"
    using sample_request_no_ram_missing by (simp add: required_features_def)
  moreover have "MODEL_LOADED (startup sample_artifacts)" using startup_loaded by blast
  ultimately show "predict sample_library (startup sample_artifacts) sample_request_no_ram =
     (400, Error missing_features_message)"
    by (simp add: predict_def)
  show "\<not> sublist (ustr ''RAM'') missing_features_message"
    by (simp add: missing_features_message_def ustr_def sublist_code)
qed

section \<open>Evaluating the cleaning functions\<close>

text \<open>Rules that run \<open>str_replace\<close> and the parser on a literal.\<close>

lemma str_replace_Nil: "old \<noteq> [] \<Longrightarrow> str_replace old new [] = []"
  by (simp add: str_replace.simps)

lemma str_replace_hit:
  "old \<noteq> [] \<Longrightarrow> starts_with old (c # cs) \<Longrightarrow>
   str_replace old new (c # cs) = new @ str_replace old new (drop (length old) (c # cs))"
  by (subst str_replace.simps) simp

lemma str_replace_miss:
  "old \<noteq> [] \<Longrightarrow> \<not> starts_with old (c # cs) \<Longrightarrow>
   str_replace old new (c # cs) = c # str_replace old new cs"
  by (subst str_replace.simps) simp

lemmas str_replace_eval = str_replace_Nil str_replace_hit str_replace_miss

text \<open>Rounding is exact on the numbers with 53 significant bits.\<close>

lemma round_half_even_int: "round_half_even (of_int n) = n"
  by (simp add: round_half_even_def)

lemma floor_log2_le: "0 < a \<Longrightarrow> 2 powi (floor_log2 a) \<le> a"
proof (cases "1 \<le> a")
  case True
  assume "0 < a"
  from True have pos: "0 < \<lfloor>a\<rfloor>" by simp
  from bitlen_bounds [OF pos] have "2 ^ nat (bitlen \<lfloor>a\<rfloor> - 1) \<le> \<lfloor>a\<rfloor>" by simp
  then have "(2::real) ^ nat (bitlen \<lfloor>a\<rfloor> - 1) \<le> of_int \<lfloor>a\<rfloor>"
    by (metis of_int_le_iff of_int_numeral of_int_power)
  also have "\<dots> \<le> a" by simp
  finally have "(2::real) ^ nat (bitlen \<lfloor>a\<rfloor> - 1) \<le> a" .
  moreover from pos have "1 \<le> bitlen \<lfloor>a\<rfloor>" by (auto simp: bitlen_alt_def)
  ultimately show ?thesis using True by (simp add: floor_log2_def power_int_def)
next
  case False
  assume a: "0 < a"
  let ?n = "\<lceil>1 / a\<rceil> - 1"
  from False a have "1 < 1 / a" by simp
  then have pos: "0 < ?n" by linarith
  from bitlen_bounds [OF pos] have "?n < 2 ^ nat (bitlen ?n)" by simp
  then have "\<lceil>1 / a\<rceil> \<le> 2 ^ nat (bitlen ?n)" by linarith
  then have "1 / a \<le> 2 ^ nat (bitlen ?n)"
    by (metis ceiling_le_iff of_int_numeral of_int_power)
  with a have "1 \<le> 2 ^ nat (bitlen ?n) * a" by (simp add: field_simps)
  then have "inverse (2 ^ nat (bitlen ?n)) \<le> a" by (simp add: field_simps)
  moreover have "0 \<le> bitlen ?n" by (rule bitlen_nonneg)
  ultimately have "2 powi (- bitlen ?n) \<le> a"
    by (simp add: power_int_minus power_int_nonneg_exp)
  with False show ?thesis by (simp add: floor_log2_def)
qed

lemma rnd_exact:
  assumes m: "\<bar>m\<bar> < 2 ^ 53" and j: "- 1074 \<le> j"
  shows "rnd (of_int m * 2 powi j) = of_int m * 2 powi j"
proof (cases "m = 0")
  case True
  then show ?thesis by (simp add: rnd_def)
next
  case False
  define x :: real where "x = of_int m * 2 powi j"
  define e where "e = max (floor_log2 \<bar>x\<bar>) (- 1022)"
  have x0: "x \<noteq> 0" using False by (simp add: x_def)
  then have xpos: "0 < \<bar>x\<bar>" by simp
  have "\<bar>x\<bar> = of_int \<bar>m\<bar> * 2 powi j" by (simp add: x_def abs_mult)
  also have "\<dots> < 2 ^ 53 * 2 powi j"
  proof -
    from m have "(of_int \<bar>m\<bar> :: real) < 2 ^ 53"
      by (metis of_int_less_iff of_int_numeral of_int_power)
    then show ?thesis by (simp add: mult_strict_right_mono)
  qed
  also have "\<dots> = 2 powi (53 + j)" by (simp add: power_int_add)
  finally have up: "\<bar>x\<bar> < 2 powi (53 + j)" .
  have "floor_log2 \<bar>x\<bar> < 53 + j"
  proof (rule ccontr)
    assume "\<not> floor_log2 \<bar>x\<bar> < 53 + j"
    then have "53 + j \<le> floor_log2 \<bar>x\<bar>" by simp
    then have "(2::real) powi (53 + j) \<le> 2 powi (floor_log2 \<bar>x\<bar>)"
      by (rule power_int_increasing) simp
    with floor_log2_le [OF xpos] up show False by linarith
  qed
  with j have e: "e \<le> 52 + j" unfolding e_def by linarith
  define d where "d = nat (j - (e - 52))"
  from e have d: "int d = j - (e - 52)" unfolding d_def by linarith
  have q: "x / 2 powi (e - 52) = of_int (m * 2 ^ d)"
  proof -
    have "x / 2 powi (e - 52) = of_int m * 2 powi (j - (e - 52))"
      by (simp add: x_def power_int_diff)
    also have "2 powi (j - (e - 52)) = (2::real) ^ d"
      unfolding d [symmetric] by simp
    finally show ?thesis by simp
  qed
  have "rnd x = of_int (round_half_even (x / 2 powi (e - 52))) * 2 powi (e - 52)"
    using x0 by (simp add: rnd_def Let_def e_def)
  also have "\<dots> = of_int (m * 2 ^ d) * 2 powi (e - 52)"
    unfolding q round_half_even_int ..
  also have "\<dots> = of_int m * (2 powi (int d) * 2 powi (e - 52))"
    by simp
  also have "2 powi (int d) * 2 powi (e - 52) = (2::real) powi j"
    unfolding d by (simp add: power_int_add [symmetric])
  finally show ?thesis by (simp add: x_def)
qed

lemma rnd_int: "\<bar>m\<bar> < 2 ^ 53 \<Longrightarrow> rnd (of_int m) = of_int m"
  using rnd_exact [of m 0] by simp


lemma rnd_0: "rnd 0 = 0"
  by (simp add: rnd_def)

lemma rnd_1: "rnd 1 = 1"
  using rnd_int [of 1] by simp

lemma rnd_numeral: "numeral n < (9007199254740992::int) \<Longrightarrow> rnd (numeral n) = numeral n"
  using rnd_int [of "numeral n"] by simp

lemma rnd_neg_numeral:
  "numeral n < (9007199254740992::int) \<Longrightarrow> rnd (- numeral n) = - numeral n"
  using rnd_int [of "- numeral n"] by simp

lemma rnd_half: "numeral n < (9007199254740992::int) \<Longrightarrow> rnd (numeral n / 2) = numeral n / 2"
  using rnd_exact [of "numeral n" "- 1"] by (simp add: power_int_minus field_simps)

lemma e10_small: "k \<le> 22 \<Longrightarrow> e10 k = 10 ^ k"
proof -
  assume k: "k \<le> 22"
  have "(5::int) ^ k \<le> 5 ^ 22" using k by (intro power_increasing) simp_all
  then have "\<bar>(5::int) ^ k\<bar> < 2 ^ 53" by simp
  from rnd_exact [OF this, of "int k"] have "rnd (5 ^ k * 2 ^ k) = 5 ^ k * 2 ^ k" by simp
  moreover have "(10::real) ^ k = 5 ^ k * 2 ^ k"
    by (simp flip: power_mult_distrib)
  ultimately show ?thesis by (simp add: e10_def)
qed

lemmas parse_eval = to_numeric_def floatify_def to_double_def split_sign_def split_fraction_def
  split_exponent_def scale10_def digits_double_def digits_int_def wrap32_def is_digit_def
  is_space_ascii_def tolower_ascii_def ustr_def e10_small rnd_0 rnd_1 rnd_numeral
  rnd_neg_numeral rnd_half


lemmas price_eval = clean_price_cell_def clean_price_text_def price_class_def
  is_space_unicode_def str_replace_eval parse_eval

section \<open>Properties of the cleaning functions\<close>












































text \<open>
  C3. \<^verbatim>\<open>clean_price\<close> on \<^verbatim>\<open>1,20,000\<close> after the rupee sign U+20B9 gives the
  not-available marker, not 120000.0: the sign is not in the character class of the source
  file, so it stays in the text (only the commas go), and the text does not parse. The
  class holds U+00E2, U+201A and U+00B9, which is the sign's UTF-8 encoding read as
  Windows-1252; after these three code points, or after \<^verbatim>\<open>INR\<close> and a space, the same
  digits give 120000.0.
\<close>

theorem clean_price_rupee_sign:
  "clean_price [Some (8377 # ustr ''1,20,000'')] = [NaN]
   \<and> clean_price_text (8377 # ustr ''1,20,000'') = 8377 # ustr ''120000''
   \<and> clean_price [Some ([226, 8218, 185] @ ustr ''1,20,000'')] = [Finite 120000]
   \<and> clean_price [Some (ustr ''INR 1,20,000'')] = [Finite 120000]"
  by (simp add: clean_price_def price_eval)

section \<open>Properties of the training pipeline\<close>











section \<open>Properties of the input array\<close>

lemma foldr_max_ge: "x \<in> set xs \<Longrightarrow> x \<le> foldr max xs (b::nat)"
  by (induction xs) auto

lemma foldr_max_base: "b \<le> foldr max xs (b::nat)"
  by (induction xs) auto

lemma foldr_max_mem: "foldr max xs (b::nat) \<in> insert b (set xs)"
  by (induction xs) (auto simp: max_def)

lemma itemsize_Max: "itemsize input_data = Max (insert 1 (field_width ` set input_data))"
proof (rule sym, rule Max_eqI)
  show "finite (insert 1 (field_width ` set input_data))" by simp
  show "\<And>y. y \<in> insert 1 (field_width ` set input_data) \<Longrightarrow> y \<le> itemsize input_data"
    using foldr_max_ge [of _ "map field_width input_data" 1]
      foldr_max_base [of 1 "map field_width input_data"]
    by (auto simp: itemsize_def)
  show "itemsize input_data \<in> insert 1 (field_width ` set input_data)"
    using foldr_max_mem [of "map field_width input_data" 1] by (simp add: itemsize_def)
qed

lemma unknown_x: "prediction_get_processor_speed (ustr ''X'') = 2"
  by (simp add: prediction_get_processor_speed_def prediction_processor_speeds_def
      ustr_def lower_ascii tolower_ascii_def)

lemma two_decimals_2: "two_decimals (Finite 2) = ustr ''2.0''"
  by (simp add: two_decimals_def Let_def str_nat.simps ustr_def)

lemma str_int_1: "str_int 1 = ustr ''1''"
  by (simp add: str_int_def str_nat.simps ustr_def)

lemma lower_from_length: "length (lower_from before s) \<le> 2 * length s"
proof (induction s arbitrary: before)
  case Nil
  show ?case by simp
next
  case (Cons c cs)
  have "length (if c = 931 then [if final_sigma before cs then 962 else 963] else lower_cp c)
      \<le> 2"
    by (simp add: lower_cp_def)
  with Cons [of "c # before"] show ?case by simp
qed

lemma lower_length: "length (lower s) \<le> 2 * length s"
  by (simp add: lower_def lower_from_length)

lemma prediction_keys_long:
  "list_all (\<lambda>(key, val). list_all (\<lambda>k. k < 128) key \<and> 7 \<le> length key)
     prediction_processor_speeds"
  by (simp add: prediction_processor_speeds_def ustr_def)

lemma prediction_speeds_texts:
  "list_all (\<lambda>(key, val). case map_of python_speed_texts val of
                             Some t \<Rightarrow> length t \<le> 4 | None \<Rightarrow> False)
     prediction_processor_speeds"
  by (simp add: prediction_processor_speeds_def python_speed_texts_def ustr_def)

lemma match_needs_four:
  assumes "(key, val) \<in> set prediction_processor_speeds"
    and "sublist (lower key) (lower name)"
  shows "4 \<le> length name"
proof -
  from assms(1) prediction_keys_long
  have k: "list_all (\<lambda>k. k < 128) key" "7 \<le> length key"
    by (auto simp: list_all_iff)
  from k(1) have "length (lower key) = length key" by (simp add: lower_ascii)
  moreover from assms(2) have "length (lower key) \<le> length (lower name)"
    by (rule sublist_length_le)
  ultimately have "7 \<le> 2 * length name" using k(2) lower_length [of name] by linarith
  then show ?thesis by linarith
qed

lemma field_text_width:
  "4 \<le> length (field_text lib f) \<Longrightarrow> 4 \<le> field_width f"
  by (cases f) (simp_all add: field_text_def field_width_def)

lemma take_default_text:
  "1 \<le> w \<Longrightarrow> take w (ustr ''2.0'') = ustr ''2.0'' \<or> take w (ustr ''2.0'') = ustr ''2''
     \<or> take w (ustr ''2.0'') = ustr ''2.''"
proof -
  assume "1 \<le> w"
  then consider "w = 1" | "w = 2" | "3 \<le> w" by linarith
  then show ?thesis by cases (auto simp: ustr_def numeral_2_eq_2)
qed

lemma stored_speed_text:
  assumes texts: "list_all (\<lambda>(v, t). float_str lib (Finite v) = t) python_speed_texts"
    and pos: "4 < length input_data"
  shows "take (itemsize input_data)
           (float_str lib (Finite (prediction_get_processor_speed (field_text lib (input_data ! 4)))))
         = float_str lib (Finite (prediction_get_processor_speed (field_text lib (input_data ! 4))))
       \<or> (prediction_get_processor_speed (field_text lib (input_data ! 4)) = 2
          \<and> (take (itemsize input_data) (float_str lib (Finite 2)) = ustr ''2''
             \<or> take (itemsize input_data) (float_str lib (Finite 2)) = ustr ''2.''))"
proof -
  let ?name = "field_text lib (input_data ! 4)"
  let ?w = "itemsize input_data"
  have w1: "1 \<le> ?w" using foldr_max_base [of 1 "map field_width input_data"]
    by (simp add: itemsize_def)
  show ?thesis
  proof (cases "find (\<lambda>(key, val). sublist (lower key) (lower ?name))
      prediction_processor_speeds")
    case None
    then have sp: "prediction_get_processor_speed ?name = 2"
      by (simp add: prediction_get_processor_speed_def speed_loop_find)
    from texts have "float_str lib (Finite 2) = ustr ''2.0''"
      by (simp add: python_speed_texts_def)
    with take_default_text [OF w1] sp show ?thesis by auto
  next
    case (Some e)
    obtain key val where e: "e = (key, val)" by (cases e) auto
    from Some e have mem: "(key, val) \<in> set prediction_processor_speeds"
      and hit: "sublist (lower key) (lower ?name)"
      by (auto simp: find_Some_iff in_set_conv_nth)
    from Some e have sp: "prediction_get_processor_speed ?name = val"
      by (simp add: prediction_get_processor_speed_def speed_loop_find)
    from mem prediction_speeds_texts obtain t where
      t: "map_of python_speed_texts val = Some t" "length t \<le> 4"
      by (auto simp: list_all_iff split: option.splits)
    from t(1) have "(val, t) \<in> set python_speed_texts" by (rule map_of_SomeD)
    with texts have ft: "float_str lib (Finite val) = t" by (auto simp: list_all_iff)
    from match_needs_four [OF mem hit] have "4 \<le> field_width (input_data ! 4)"
      by (rule field_text_width)
    moreover from pos have "field_width (input_data ! 4) \<in> set (map field_width input_data)"
      by simp
    ultimately have "4 \<le> ?w"
      using foldr_max_ge [of "field_width (input_data ! 4)" "map field_width input_data" 1]
      by (simp add: itemsize_def)
    with t(2) ft sp show ?thesis by simp
  qed
qed

lemma default_numerals:
  "floatify (ustr ''2'') = Finite 2 \<and> floatify (ustr ''2.'') = Finite 2
   \<and> floatify (ustr ''2.0'') = Finite 2"
  by (simp add: parse_eval)

text \<open>
  C10, as amended. When the input list holds a string and has a position 4,
  \<^verbatim>\<open>np.array\<close> makes it one array of fixed-width text, so every numeric field is kept
  as its text, and position 4 receives the first \<open>w\<close> code points of the text of the
  resolved speed, \<open>w\<close> being the item width of the array: the largest of 1, the lengths of
  the string fields, 21 when an integer field is present and 32 when a float field is
  present. The text is cut exactly when it is longer than \<open>w\<close>. When floats are written
  as Python writes them, the text of a speed of the table is never cut (a key of the table
  is found only in a processor text of four code points or more, and these texts have at
  most four); only the text \<^verbatim>\<open>2.0\<close> of the default is, to \<^verbatim>\<open>2\<close> or \<^verbatim>\<open>2.\<close>, which are
  numerals of the same number: the cut does not change the number.
\<close>

theorem speed_text_cut:
  "list_ex is_str_field input_data \<and> 4 < length input_data \<longrightarrow>
     replace_processor lib input_data =
       Inr (StrMatrix (itemsize input_data)
              [(map (field_text lib) input_data)
                 [4 := take (itemsize input_data)
                         (float_str lib (Finite (prediction_get_processor_speed
                            (field_text lib (input_data ! 4)))))]])
     \<and> itemsize input_data = Max (insert 1 (field_width ` set input_data))
     \<and> (take (itemsize input_data) text \<noteq> text \<longleftrightarrow> itemsize input_data < length text)
     \<and> (list_all (\<lambda>(v, t). float_str lib (Finite v) = t) python_speed_texts \<longrightarrow>
          take (itemsize input_data)
            (float_str lib (Finite (prediction_get_processor_speed
               (field_text lib (input_data ! 4)))))
          = float_str lib (Finite (prediction_get_processor_speed
               (field_text lib (input_data ! 4))))
          \<or> (prediction_get_processor_speed (field_text lib (input_data ! 4)) = 2
             \<and> (take (itemsize input_data) (float_str lib (Finite 2)) = ustr ''2''
                \<or> take (itemsize input_data) (float_str lib (Finite 2)) = ustr ''2.'')))
     \<and> floatify (ustr ''2'') = Finite 2 \<and> floatify (ustr ''2.'') = Finite 2
     \<and> floatify (ustr ''2.0'') = Finite 2"
proof (intro impI conjI)
  assume a: "list_ex is_str_field input_data \<and> 4 < length input_data"
  then show "replace_processor lib input_data =
       Inr (StrMatrix (itemsize input_data)
              [(map (field_text lib) input_data)
                 [4 := take (itemsize input_data)
                         (float_str lib (Finite (prediction_get_processor_speed
                            (field_text lib (input_data ! 4)))))]])"
    by (simp add: replace_processor_def np_array_def Let_def)
  show "itemsize input_data = Max (insert 1 (field_width ` set input_data))"
    by (rule itemsize_Max)
  show "take (itemsize input_data) text \<noteq> text \<longleftrightarrow> itemsize input_data < length text"
    by (auto simp: take_all_iff)
  show "take (itemsize input_data)
            (float_str lib (Finite (prediction_get_processor_speed
               (field_text lib (input_data ! 4)))))
          = float_str lib (Finite (prediction_get_processor_speed
               (field_text lib (input_data ! 4))))
          \<or> (prediction_get_processor_speed (field_text lib (input_data ! 4)) = 2
             \<and> (take (itemsize input_data) (float_str lib (Finite 2)) = ustr ''2''
                \<or> take (itemsize input_data) (float_str lib (Finite 2)) = ustr ''2.''))"
    if "list_all (\<lambda>(v, t). float_str lib (Finite v) = t) python_speed_texts"
    using stored_speed_text [OF that] a by blast
  show "floatify (ustr ''2'') = Finite 2" "floatify (ustr ''2.'') = Finite 2"
    "floatify (ustr ''2.0'') = Finite 2"
    using default_numerals by blast+
qed

lemma sample_speed_texts:
  "list_all (\<lambda>(v, t). float_str sample_library (Finite v) = t) python_speed_texts"
  by (simp add: python_speed_texts_def sample_library_def two_decimals_def Let_def
      str_nat.simps ustr_def)

text \<open>
  Eight strings of one code point: the width is 1 and the default speed \<^verbatim>\<open>2.0\<close> is
  stored as \<^verbatim>\<open>2\<close>.
\<close>

theorem speed_text_cut_witness:
  "list_ex is_str_field short_text_input \<and> 4 < length short_text_input
   \<and> list_all (\<lambda>(v, t). float_str sample_library (Finite v) = t) python_speed_texts
   \<and> itemsize short_text_input = 1
   \<and> prediction_get_processor_speed (field_text sample_library (short_text_input ! 4)) = 2
   \<and> float_str sample_library (Finite 2) = ustr ''2.0''
   \<and> replace_processor sample_library short_text_input =
       Inr (StrMatrix 1
              [[ustr ''1'', ustr ''1'', ustr ''1'', ustr ''1'', ustr ''2'', ustr ''1'',
                ustr ''1'', ustr ''1'']])"
proof -
  have h: "list_ex is_str_field short_text_input \<and> 4 < length short_text_input"
    by (simp add: short_text_input_def is_str_field_def)
  have w: "itemsize short_text_input = 1"
    by (simp add: itemsize_def short_text_input_def field_width_def ustr_def)
  have p: "field_text sample_library (short_text_input ! 4) = ustr ''X''"
    by (simp add: short_text_input_def field_text_def)
  have t: "float_str sample_library (Finite 2) = ustr ''2.0''"
    by (simp add: sample_library_def two_decimals_2)
  from speed_text_cut [of short_text_input sample_library "ustr ''2.0''"] h
  have "replace_processor sample_library short_text_input =
       Inr (StrMatrix (itemsize short_text_input)
              [(map (field_text sample_library) short_text_input)
                 [4 := take (itemsize short_text_input)
                         (float_str sample_library (Finite (prediction_get_processor_speed
                            (field_text sample_library (short_text_input ! 4)))))]])"
    by blast
  then have "replace_processor sample_library short_text_input =
       Inr (StrMatrix 1
              [[ustr ''1'', ustr ''1'', ustr ''1'', ustr ''1'', ustr ''2'', ustr ''1'',
                ustr ''1'', ustr ''1'']])"
    unfolding w p unknown_x t by (simp add: short_text_input_def field_text_def ustr_def)
  with h w p t sample_speed_texts unknown_x show ?thesis by simp
qed

text \<open>
  C10 as stated fails: with seven integer fields 1 and the processor \<^verbatim>\<open>X\<close> the text of
  every field has one code point and the text \<^verbatim>\<open>2.0\<close> of the speed has three, yet the
  width is 21 and \<^verbatim>\<open>2.0\<close> is stored whole.
\<close>

theorem numeric_fields_width_counterexample:
  "map (\<lambda>f. length (field_text sample_library f)) numeric_input = [1, 1, 1, 1, 1, 1, 1, 1]
   \<and> length (float_str sample_library (Finite (prediction_get_processor_speed (ustr ''X'')))) = 3
   \<and> replace_processor sample_library numeric_input =
       Inr (StrMatrix 21
              [[ustr ''1'', ustr ''1'', ustr ''1'', ustr ''1'', ustr ''2.0'', ustr ''1'',
                ustr ''1'', ustr ''1'']])"
proof (intro conjI)
  show "map (\<lambda>f. length (field_text sample_library f)) numeric_input = [1, 1, 1, 1, 1, 1, 1, 1]"
    by (simp add: numeric_input_def field_text_def str_int_1) (simp add: ustr_def)
  show "length (float_str sample_library (Finite (prediction_get_processor_speed (ustr ''X'')))) = 3"
    by (simp add: sample_library_def unknown_x two_decimals_2) (simp add: ustr_def)
  have w: "itemsize numeric_input = 21"
    by (simp add: itemsize_def numeric_input_def field_width_def ustr_def)
  have a: "np_array sample_library numeric_input =
      StrArray 21 [ustr ''1'', ustr ''1'', ustr ''1'', ustr ''1'', ustr ''X'', ustr ''1'',
                ustr ''1'', ustr ''1'']"
    unfolding np_array_def w
    by (simp add: numeric_input_def is_str_field_def field_text_def str_int_1)
  show "replace_processor sample_library numeric_input =
       Inr (StrMatrix 21
              [[ustr ''1'', ustr ''1'', ustr ''1'', ustr ''1'', ustr ''2.0'', ustr ''1'',
                ustr ''1'', ustr ''1'']])"
    unfolding replace_processor_def a
    by (simp add: unknown_x sample_library_def two_decimals_2) (simp add: ustr_def)
qed

end
